theory Spec2Isabelle
  imports Main "HOL-Library.Word"
begin

unbundle bit_operations_syntax

section \<open>Data model of the tasklet subsystem (src/task.c)\<close>

text \<open>
  Pointers are addresses; the C null pointer is address 0. A handle is either the
  null sentinel of its kind or the cast of an object address, which is how
  \<open>ABTI_task_get_ptr\<close> and \<open>ABTI_task_get_handle\<close> convert between the two.
\<close>

type_synonym ptr = nat

abbreviation (input) NULL :: ptr where
  "NULL \<equiv> 0"

datatype ABT_task = ABT_TASK_NULL | ABT_task_of ptr

datatype ABT_stream = ABT_STREAM_NULL | ABT_stream_of ptr

datatype ABT_task_state =
    ABT_TASK_STATE_CREATED
  | ABT_TASK_STATE_DELAYED
  | ABT_TASK_STATE_RUNNING
  | ABT_TASK_STATE_COMPLETED
  | ABT_TASK_STATE_TERMINATED

datatype ABT_stream_state =
    ABT_STREAM_STATE_CREATED
  | ABT_STREAM_STATE_READY
  | ABT_STREAM_STATE_RUNNING
  | ABT_STREAM_STATE_TERMINATED

text \<open>
  The status codes of \<open>abt.h\<close> that this file names, and one constructor for every
  other code a collaborator may hand back.
\<close>

datatype ABT_errno =
    ABT_SUCCESS
  | ABT_ERR_MEM
  | ABT_ERR_TASK
  | ABT_ERR_INV_TASK
  | ABT_ERR_OTHER int

type_synonym ABT_mutex = nat
type_synonym ABT_unit = nat

text \<open>
  A \<open>char *\<close>: the null pointer, a live buffer holding a string (without its
  terminating zero byte), or a pointer to a buffer that has been handed to
  \<open>ABTU_free\<close>.
\<close>

datatype char_ptr = NULL_str | Buf string | Dangling

record ABTI_task =
  id_task :: "64 word"
  p_name :: char_ptr
  state :: ABT_task_state
  refcount :: "32 word"
  request :: "32 word"
  f_task :: nat
  p_arg :: nat
  mutex :: ABT_mutex
  p_stream :: ptr
  unit_task :: ABT_unit

record ABTI_scheduler =
  u_create_from_task :: "ABT_task \<Rightarrow> ABT_unit"
  u_free :: "ABT_unit \<Rightarrow> ABT_unit"
  pool :: "ABT_unit list"

record ABTI_stream =
  id_stream :: "64 word"
  p_sched :: ptr
  state_stream :: ABT_stream_state
  mutex_stream :: ABT_mutex
  deads :: "ABT_unit list"

record ABTI_stream_pool =
  active :: "ABT_unit list"
  created :: "ABT_unit list"

text \<open>
  The memory the subsystem works on: the task objects, the streams and schedulers
  they point to, the static counter of \<open>ABTI_task_get_new_id\<close>, and the two parts
  of \<open>gp_ABTI_global\<close> that \<open>ABT_task_create\<close> touches.
\<close>

record world =
  tasks :: "ptr \<rightharpoonup> ABTI_task"
  streams :: "ptr \<rightharpoonup> ABTI_stream"
  scheds :: "ptr \<rightharpoonup> ABTI_scheduler"
  task_id :: "64 word"
  global_tasks :: "ABT_unit list"
  p_streams :: ABTI_stream_pool

text \<open>
  What the collaborators outside this file answer during one call: the allocator
  (the address it returns, null on failure, and the indeterminate contents of the
  fresh object; whether the allocation of a name buffer succeeds), the mutex
  primitive, the generic unit factory and destructor (a destructor is given the unit
  variable and leaves a value in it), the global pool, the stream control and the
  caller's context (\<open>ABTI_local_get_thread\<close> is null when the caller is a task).
\<close>

record collab =
  ABTU_malloc_ret :: ptr
  ABTU_malloc_mem :: ABTI_task
  ABTU_malloc_name :: bool
  ABT_mutex_create_ret :: "ABT_errno \<times> ABT_mutex"
  ABT_mutex_free_ret :: ABT_errno
  ABTI_unit_create_from_task :: "ABT_task \<Rightarrow> ABT_unit"
  ABTI_unit_free :: "ABT_unit \<Rightarrow> ABT_unit"
  ABTI_global_add_task_ret :: ABT_errno
  ABTI_stream_start_any :: "world \<Rightarrow> ABT_errno \<times> ABTI_stream_pool \<times> (ptr \<rightharpoonup> ABTI_stream)"
  ABTI_stream_start :: "ABTI_stream \<Rightarrow> ABT_errno \<times> ABTI_stream"
  ABTI_local_get_thread :: ptr

text \<open>
  The outcome of a call: it returns, it runs into undefined behaviour (a null or
  dangling pointer is dereferenced), or it is still waiting when the observed
  schedule ends.
\<close>

datatype 'a exec = Returns 'a | Undefined | Still_waiting

section \<open>Private APIs\<close>

fun ABTI_task_get_ptr :: "ABT_task \<Rightarrow> ptr" where
  "ABTI_task_get_ptr ABT_TASK_NULL = NULL"
| "ABTI_task_get_ptr (ABT_task_of p) = p"

definition ABTI_task_get_handle :: "ptr \<Rightarrow> ABT_task" where
  "ABTI_task_get_handle p_task =
     (if p_task = NULL then ABT_TASK_NULL else ABT_task_of p_task)"

text \<open>
  Modelled from the spec: \<open>ABTI_stream_get_ptr\<close> is declared in \<open>abti.h\<close>, which
  is absent; a handle is "an opaque reference convertible to/from the internal
  object address", as for tasks.
\<close>

fun ABTI_stream_get_ptr :: "ABT_stream \<Rightarrow> ptr" where
  "ABTI_stream_get_ptr ABT_STREAM_NULL = NULL"
| "ABTI_stream_get_ptr (ABT_stream_of p) = p"

definition ABTI_task_get_new_id :: "world \<Rightarrow> 64 word \<times> world" where
  "ABTI_task_get_new_id w = (task_id w, w\<lparr>task_id := task_id w + 1\<rparr>)"

section \<open>Atomic primitives\<close>

text \<open>
  Modelled from the spec: the atomics of the absent \<open>abtd\<close> layer, "fetch-add,
  fetch-or, compare-and-swap on 32-bit words". Each takes the word in memory and
  gives back the value it held before together with the word it holds after;
  the compare-and-swap stores only when the word equals the expected value.
\<close>

definition ABTD_atomic_fetch_add_uint32 :: "32 word \<Rightarrow> 32 word \<Rightarrow> 32 word \<times> 32 word" where
  "ABTD_atomic_fetch_add_uint32 m v = (m, m + v)"

definition ABTD_atomic_fetch_or_uint32 :: "32 word \<Rightarrow> 32 word \<Rightarrow> 32 word \<times> 32 word" where
  "ABTD_atomic_fetch_or_uint32 m v = (m, m OR v)"

definition ABTD_atomic_cas_uint32 :: "32 word \<Rightarrow> 32 word \<Rightarrow> 32 word \<Rightarrow> 32 word \<times> 32 word" where
  "ABTD_atomic_cas_uint32 m oldv newv = (m, if m = oldv then newv else m)"

section \<open>Retain and release\<close>

definition ABT_task_retain :: "world \<Rightarrow> ABT_task \<Rightarrow> (ABT_errno \<times> world) exec" where
  "ABT_task_retain w task =
     (let p_task = ABTI_task_get_ptr task in
      if p_task = NULL then Returns (ABT_ERR_INV_TASK, w)
      else case tasks w p_task of
        None \<Rightarrow> Undefined
      | Some t \<Rightarrow>
          let (old, new) = ABTD_atomic_fetch_add_uint32 (refcount t) 1
          in Returns (ABT_SUCCESS, w\<lparr>tasks := (tasks w)(p_task \<mapsto> t\<lparr>refcount := new\<rparr>)\<rparr>))"

text \<open>
  The retry loop of \<open>ABT_task_release\<close>, run by one caller with no other writer of
  the counter: it reads the counter, and while the value read is positive it tries
  to store that value minus one, leaving the loop when the compare-and-swap reports
  the value it expected.
\<close>

function release_loop :: "32 word \<Rightarrow> 32 word" where
  "release_loop m =
     (let refcount = m in
      if refcount > 0 then
        (let (old, m') = ABTD_atomic_cas_uint32 m refcount (refcount - 1)
         in if old = refcount then m' else release_loop m')
      else m)"
  by pat_completeness auto
termination
  by (relation "{}") (auto simp: ABTD_atomic_cas_uint32_def)

declare release_loop.simps [simp del]

definition ABT_task_release :: "world \<Rightarrow> ABT_task \<Rightarrow> (ABT_errno \<times> world) exec" where
  "ABT_task_release w task =
     (let p_task = ABTI_task_get_ptr task in
      if p_task = NULL then Returns (ABT_ERR_INV_TASK, w)
      else case tasks w p_task of
        None \<Rightarrow> Undefined
      | Some t \<Rightarrow>
          Returns (ABT_SUCCESS,
            w\<lparr>tasks := (tasks w)(p_task \<mapsto> t\<lparr>refcount := release_loop (refcount t)\<rparr>)\<rparr>))"

section \<open>Dereferencing\<close>

text \<open>
  Reading through a pointer gives the object only when the pointer is not null and
  an object lives at the address.
\<close>

definition task_at :: "world \<Rightarrow> ptr \<Rightarrow> ABTI_task option" where
  "task_at w p = (if p = NULL then None else tasks w p)"

definition stream_at :: "world \<Rightarrow> ptr \<Rightarrow> ABTI_stream option" where
  "stream_at w p = (if p = NULL then None else streams w p)"

definition sched_at :: "world \<Rightarrow> ptr \<Rightarrow> ABTI_scheduler option" where
  "sched_at w p = (if p = NULL then None else scheds w p)"

section \<open>Pools\<close>

text \<open>
  Modelled from the spec: the pool operations live outside this file. A pool is "an
  ordered container of work-units supporting push, pop, remove, and size query";
  \<open>ABTI_global_add_task\<close> pushes the task's unit into "the process-wide global pool
  of unassigned tasks" unless the collaborator reports a failure, and
  \<open>ABTI_scheduler_push\<close> pushes a unit into a scheduler's pool.
\<close>

definition ABTI_pool_get_size :: "ABT_unit list \<Rightarrow> nat" where
  "ABTI_pool_get_size p = length p"

definition ABTI_pool_remove :: "ABT_unit list \<Rightarrow> ABT_unit \<Rightarrow> ABT_unit list" where
  "ABTI_pool_remove p u = remove1 u p"

definition ABTI_global_add_task :: "collab \<Rightarrow> world \<Rightarrow> ABTI_task \<Rightarrow> ABT_errno \<times> world" where
  "ABTI_global_add_task c w t =
     (if ABTI_global_add_task_ret c \<noteq> ABT_SUCCESS then (ABTI_global_add_task_ret c, w)
      else (ABT_SUCCESS, w\<lparr>global_tasks := global_tasks w @ [unit_task t]\<rparr>))"

definition ABTI_scheduler_push :: "ABTI_scheduler \<Rightarrow> ABT_unit \<Rightarrow> ABTI_scheduler" where
  "ABTI_scheduler_push sched u = sched\<lparr>pool := pool sched @ [u]\<rparr>"

section \<open>Create\<close>

text \<open>
  \<open>newtask\<close> is the caller's output pointer: \<open>None\<close> is the null pointer,
  \<open>Some h\<close> a variable that holds \<open>h\<close> before the call. The third component of the
  result is that variable after the call. \<open>ABTI_CHECK_ERROR\<close> jumps to \<open>fn_fail\<close>,
  which returns the status, whenever the status is not \<open>ABT_SUCCESS\<close>.
\<close>

definition ABT_task_create ::
  "collab \<Rightarrow> world \<Rightarrow> ABT_stream \<Rightarrow> nat \<Rightarrow> nat \<Rightarrow> ABT_task option
     \<Rightarrow> (ABT_errno \<times> world \<times> ABT_task option) exec" where
  "ABT_task_create c w stream task_func arg newtask =
     (let p_newtask = ABTU_malloc_ret c in
      if p_newtask = NULL then
        Returns (ABT_ERR_MEM, w, if newtask \<noteq> None then Some ABT_TASK_NULL else newtask)
      else
        let (new_id, w1) = ABTI_task_get_new_id w;
            t1 = (ABTU_malloc_mem c)
                   \<lparr>id_task := new_id, p_name := NULL_str, state := ABT_TASK_STATE_CREATED,
                    refcount := (if newtask \<noteq> None then 1 else 0), request := 0,
                    f_task := task_func, p_arg := arg\<rparr>;
            (abt_errno, m) = ABT_mutex_create_ret c;
            t2 = t1\<lparr>mutex := m\<rparr>
        in
        if abt_errno \<noteq> ABT_SUCCESS then
          Returns (abt_errno, w1\<lparr>tasks := (tasks w1)(p_newtask \<mapsto> t2)\<rparr>, newtask)
        else
          let h_newtask = ABTI_task_get_handle p_newtask in
          if stream = ABT_STREAM_NULL then
            let t3 = t2\<lparr>p_stream := NULL\<rparr>;
                t4 = t3\<lparr>unit_task := ABTI_unit_create_from_task c h_newtask\<rparr>;
                w2 = w1\<lparr>tasks := (tasks w1)(p_newtask \<mapsto> t4)\<rparr>;
                (abt_errno, w3) = ABTI_global_add_task c w2 t4
            in
            if abt_errno \<noteq> ABT_SUCCESS then Returns (abt_errno, w3, newtask)
            else if ABTI_pool_get_size (active (p_streams w3)) \<le> 1 \<and>
                    ABTI_pool_get_size (created (p_streams w3)) > 0 then
              let (abt_errno, ps, ss) = ABTI_stream_start_any c w3;
                  w4 = w3\<lparr>p_streams := ps, streams := ss\<rparr>
              in
              if abt_errno \<noteq> ABT_SUCCESS then Returns (abt_errno, w4, newtask)
              else Returns (ABT_SUCCESS, w4, if newtask \<noteq> None then Some h_newtask else newtask)
            else Returns (ABT_SUCCESS, w3, if newtask \<noteq> None then Some h_newtask else newtask)
          else
            let p_stream = ABTI_stream_get_ptr stream in
            case stream_at w1 p_stream of
              None \<Rightarrow> Undefined
            | Some s \<Rightarrow>
                let p_sched = p_sched s;
                    t3 = t2\<lparr>state := ABT_TASK_STATE_DELAYED\<rparr>;
                    t4 = t3\<lparr>p_stream := p_stream\<rparr>
                in
                (case sched_at w1 p_sched of
                  None \<Rightarrow> Undefined
                | Some sched \<Rightarrow>
                    let t5 = t4\<lparr>unit_task := u_create_from_task sched h_newtask\<rparr>;
                        w2 = w1\<lparr>tasks := (tasks w1)(p_newtask \<mapsto> t5),
                                scheds := (scheds w1)(p_sched \<mapsto> ABTI_scheduler_push sched (unit_task t5))\<rparr>
                    in
                    if state_stream s = ABT_STREAM_STATE_CREATED then
                      let (abt_errno, s') = ABTI_stream_start c s;
                          w3 = w2\<lparr>streams := (streams w2)(p_stream \<mapsto> s')\<rparr>
                      in
                      if abt_errno \<noteq> ABT_SUCCESS then Returns (abt_errno, w3, newtask)
                      else Returns (ABT_SUCCESS, w3, if newtask \<noteq> None then Some h_newtask else newtask)
                    else Returns (ABT_SUCCESS, w2, if newtask \<noteq> None then Some h_newtask else newtask)))"

section \<open>Free\<close>

text \<open>
  The waiting loop of \<open>ABT_task_free\<close>. Each \<open>ABT_thread_yield\<close> hands the
  processor to the rest of the runtime, which may change anything; the list holds
  what the runtime does during the successive yields. When the list is used up and
  the task has still not terminated, the caller is still waiting.
\<close>

fun wait_terminated :: "(world \<Rightarrow> world) list \<Rightarrow> world \<Rightarrow> ptr \<Rightarrow> world exec" where
  "wait_terminated [] w p_task =
     (case task_at w p_task of
        None \<Rightarrow> Undefined
      | Some t \<Rightarrow> if state t \<noteq> ABT_TASK_STATE_TERMINATED then Still_waiting else Returns w)"
| "wait_terminated (y # ys) w p_task =
     (case task_at w p_task of
        None \<Rightarrow> Undefined
      | Some t \<Rightarrow>
          if state t \<noteq> ABT_TASK_STATE_TERMINATED then wait_terminated ys (y w) p_task
          else Returns w)"

text \<open>
  \<open>ABTU_free\<close> of a name buffer: the pointer keeps its value and now dangles;
  freeing a dangling pointer is undefined.
\<close>

definition ABTI_task_free :: "collab \<Rightarrow> world \<Rightarrow> ptr \<Rightarrow> (ABT_errno \<times> world) exec" where
  "ABTI_task_free c w p_task =
     (case task_at w p_task of
        None \<Rightarrow> Undefined
      | Some t \<Rightarrow>
          (case (if refcount t > 0 then Some (t\<lparr>unit_task := ABTI_unit_free c (unit_task t)\<rparr>)
                 else (case stream_at w (p_stream t) of
                         None \<Rightarrow> None
                       | Some s \<Rightarrow>
                           (case sched_at w (p_sched s) of
                              None \<Rightarrow> None
                            | Some sched \<Rightarrow> Some (t\<lparr>unit_task := u_free sched (unit_task t)\<rparr>)))) of
             None \<Rightarrow> Undefined
           | Some t1 \<Rightarrow>
               (case (case p_name t1 of
                        NULL_str \<Rightarrow> Some t1
                      | Buf s \<Rightarrow> Some (t1\<lparr>p_name := Dangling\<rparr>)
                      | Dangling \<Rightarrow> None) of
                  None \<Rightarrow> Undefined
                | Some t2 \<Rightarrow>
                    let abt_errno = ABT_mutex_free_ret c in
                    if abt_errno \<noteq> ABT_SUCCESS then
                      Returns (abt_errno, w\<lparr>tasks := (tasks w)(p_task \<mapsto> t2)\<rparr>)
                    else Returns (ABT_SUCCESS, w\<lparr>tasks := (tasks w)(p_task := None)\<rparr>))))"

text \<open>
  \<open>task\<close> is the caller's handle variable, passed by address: \<open>None\<close> is a null
  address, \<open>Some h\<close> a variable holding \<open>h\<close>; the third component of the result is
  the variable after the call. The mutex of the stream is taken and given back
  around the removal from \<open>deads\<close>; a single caller never waits for it.
\<close>

definition ABT_task_free ::
  "collab \<Rightarrow> (world \<Rightarrow> world) list \<Rightarrow> world \<Rightarrow> ABT_task option
     \<Rightarrow> (ABT_errno \<times> world \<times> ABT_task option) exec" where
  "ABT_task_free c yields w task =
     (if ABTI_local_get_thread c = NULL then Returns (ABT_ERR_TASK, w, task)
      else case task of
        None \<Rightarrow> Undefined
      | Some h_task \<Rightarrow>
          let p_task = ABTI_task_get_ptr h_task in
          (case wait_terminated yields w p_task of
             Undefined \<Rightarrow> Undefined
           | Still_waiting \<Rightarrow> Still_waiting
           | Returns w1 \<Rightarrow>
               (case task_at w1 p_task of
                  None \<Rightarrow> Undefined
                | Some t \<Rightarrow>
                    (case (if refcount t > 0 then
                             (case stream_at w1 (p_stream t) of
                                None \<Rightarrow> None
                              | Some s \<Rightarrow>
                                  Some (w1\<lparr>streams := (streams w1)
                                    (p_stream t \<mapsto> s\<lparr>deads := ABTI_pool_remove (deads s) (unit_task t)\<rparr>)\<rparr>))
                           else Some w1) of
                       None \<Rightarrow> Undefined
                     | Some w2 \<Rightarrow>
                         (case ABTI_task_free c w2 p_task of
                            Undefined \<Rightarrow> Undefined
                          | Still_waiting \<Rightarrow> Still_waiting
                          | Returns (abt_errno, w3) \<Rightarrow>
                              if abt_errno \<noteq> ABT_SUCCESS then Returns (abt_errno, w3, task)
                              else Returns (ABT_SUCCESS, w3, Some ABT_TASK_NULL))))))"

section \<open>Cancel\<close>

text \<open>
  \<open>ABTI_TASK_REQ_CANCEL\<close> is a constant of the absent \<open>abti.h\<close>; the operation
  takes it as its first argument.
\<close>

definition ABT_task_cancel :: "32 word \<Rightarrow> collab \<Rightarrow> world \<Rightarrow> ABT_task \<Rightarrow> (ABT_errno \<times> world) exec" where
  "ABT_task_cancel ABTI_TASK_REQ_CANCEL c w task =
     (if ABTI_local_get_thread c = NULL then Returns (ABT_ERR_TASK, w)
      else
        let p_task = ABTI_task_get_ptr task in
        if p_task = NULL then Returns (ABT_ERR_INV_TASK, w)
        else case tasks w p_task of
          None \<Rightarrow> Undefined
        | Some t \<Rightarrow>
            let (old, new) = ABTD_atomic_fetch_or_uint32 (request t) ABTI_TASK_REQ_CANCEL
            in Returns (ABT_SUCCESS, w\<lparr>tasks := (tasks w)(p_task \<mapsto> t\<lparr>request := new\<rparr>)\<rparr>))"

section \<open>Identity, naming, introspection\<close>

definition ABT_task_equal :: "ABT_task \<Rightarrow> ABT_task \<Rightarrow> ABT_errno \<times> int" where
  "ABT_task_equal task1 task2 =
     (let p_task1 = ABTI_task_get_ptr task1; p_task2 = ABTI_task_get_ptr task2
      in (ABT_SUCCESS, if p_task1 = p_task2 then 1 else 0))"

text \<open>
  The second component is what the call stores through \<open>state\<close>: \<open>None\<close> when it
  stores nothing.
\<close>

definition ABT_task_get_state :: "world \<Rightarrow> ABT_task \<Rightarrow> (ABT_errno \<times> ABT_task_state option) exec" where
  "ABT_task_get_state w task =
     (let p_task = ABTI_task_get_ptr task in
      if p_task = NULL then Returns (ABT_ERR_INV_TASK, None)
      else case tasks w p_task of
        None \<Rightarrow> Undefined
      | Some t \<Rightarrow> Returns (ABT_SUCCESS, Some (state t)))"

text \<open>
  \<open>strlen\<close> and \<open>strcpy\<close> of the C library are defined on a live source string
  only. \<open>ABTU_strcpy\<close>, the wrapper of \<open>strcpy\<close> in the absent \<open>abtu\<close> layer,
  is given the size of the destination buffer here; it writes the string and its
  terminating zero byte, which is undefined past the end of the buffer. \<open>None\<close>
  stands for undefined behaviour.
\<close>

definition strlen :: "char_ptr \<Rightarrow> nat option" where
  "strlen s = (case s of Buf str \<Rightarrow> Some (length str) | _ \<Rightarrow> None)"

definition ABTU_strcpy :: "nat \<Rightarrow> char_ptr \<Rightarrow> string option" where
  "ABTU_strcpy cap src =
     (case src of Buf str \<Rightarrow> if cap < length str + 1 then None else Some str | _ \<Rightarrow> None)"

text \<open>
  The mutex of the task is taken and given back around the change of the name; a
  single caller never waits for it.
\<close>

definition ABT_task_set_name :: "collab \<Rightarrow> world \<Rightarrow> ABT_task \<Rightarrow> char_ptr \<Rightarrow> (ABT_errno \<times> world) exec" where
  "ABT_task_set_name c w task name =
     (let p_task = ABTI_task_get_ptr task in
      if p_task = NULL then Returns (ABT_ERR_INV_TASK, w)
      else case strlen name of
        None \<Rightarrow> Undefined
      | Some len \<Rightarrow>
          (case tasks w p_task of
             None \<Rightarrow> Undefined
           | Some t \<Rightarrow>
               if p_name t = Dangling then Undefined
               else if \<not> ABTU_malloc_name c then
                 Returns (ABT_ERR_MEM, w\<lparr>tasks := (tasks w)(p_task \<mapsto> t\<lparr>p_name := NULL_str\<rparr>)\<rparr>)
               else
                 (case ABTU_strcpy (len + 1) name of
                    None \<Rightarrow> Undefined
                  | Some str \<Rightarrow>
                      Returns (ABT_SUCCESS,
                        w\<lparr>tasks := (tasks w)(p_task \<mapsto> t\<lparr>p_name := Buf str\<rparr>)\<rparr>))))"

text \<open>
  \<open>name\<close> is the caller's buffer: \<open>None\<close> the null pointer, \<open>Some n\<close> a buffer of
  \<open>n\<close> bytes. The result holds what the call stores: the string copied into the
  buffer and the length written through \<open>len\<close>.
\<close>

definition ABT_task_get_name ::
  "world \<Rightarrow> ABT_task \<Rightarrow> nat option \<Rightarrow> (ABT_errno \<times> string option \<times> nat option) exec" where
  "ABT_task_get_name w task name =
     (let p_task = ABTI_task_get_ptr task in
      if p_task = NULL then Returns (ABT_ERR_INV_TASK, None, None)
      else case tasks w p_task of
        None \<Rightarrow> Undefined
      | Some t \<Rightarrow>
          (case strlen (p_name t) of
             None \<Rightarrow> Undefined
           | Some len \<Rightarrow>
               (case name of
                  None \<Rightarrow> Returns (ABT_SUCCESS, None, Some len)
                | Some cap \<Rightarrow>
                    (case ABTU_strcpy cap (p_name t) of
                       None \<Rightarrow> Undefined
                     | Some str \<Rightarrow> Returns (ABT_SUCCESS, Some str, Some len)))))"

section \<open>Concurrent callers of release\<close>

text \<open>
  Several callers run \<open>ABT_task_release\<close> on one task at once. Each is at one of
  four places: at the head of the loop, about to read the counter; holding the
  positive value it read, about to compare-and-swap; past the \<open>break\<close>; or past the
  loop because it read 0. The read and the compare-and-swap are the atomic steps,
  and a run interleaves the steps of the callers in any order.
\<close>

datatype release_pc = Loop_head | Try_cas "32 word" | Broke | Exited

fun release_step :: "32 word \<Rightarrow> release_pc \<Rightarrow> (32 word \<times> release_pc) option" where
  "release_step m Loop_head =
     (let refcount = m in Some (m, if refcount > 0 then Try_cas refcount else Exited))"
| "release_step m (Try_cas seen) =
     (let (old, m') = ABTD_atomic_cas_uint32 m seen (seen - 1)
      in Some (m', if old = seen then Broke else Loop_head))"
| "release_step m Broke = None"
| "release_step m Exited = None"

inductive release_run :: "32 word \<times> release_pc list \<Rightarrow> 32 word \<times> release_pc list \<Rightarrow> bool" where
  run_start: "release_run s s"
| run_step: "release_run s (m, pcs) \<Longrightarrow> i < length pcs \<Longrightarrow>
     release_step m (pcs ! i) = Some (m', pc') \<Longrightarrow> release_run s (m', pcs[i := pc'])"

definition finished :: "release_pc \<Rightarrow> bool" where
  "finished pc = (pc = Broke \<or> pc = Exited)"

text \<open>
  What holds of every state that \<open>N\<close> concurrent callers reach from a counter
  \<open>M\<close>: the counter plus the number of callers past the \<open>break\<close> is \<open>M\<close>, a
  caller has left the loop on reading 0 only if the counter is 0, and no caller
  holds the value 0 for a compare-and-swap.
\<close>

definition release_inv :: "32 word \<Rightarrow> nat \<Rightarrow> 32 word \<times> release_pc list \<Rightarrow> bool" where
  "release_inv M N s =
     (length (snd s) = N \<and> unat (fst s) + count_list (snd s) Broke = unat M \<and>
      (Exited \<in> set (snd s) \<longrightarrow> fst s = 0) \<and> Try_cas 0 \<notin> set (snd s))"


section \<open>Properties and sample objects\<close>

text \<open>
  The cancel request of a task is set when every bit of \<open>ABTI_TASK_REQ_CANCEL\<close> is
  set in its request word. A change of the world keeps the cancel requests when
  every task that had the request and is still allocated still has it.
\<close>

definition cancel_requested :: "32 word \<Rightarrow> ABTI_task \<Rightarrow> bool" where
  "cancel_requested ABTI_TASK_REQ_CANCEL t =
     (request t AND ABTI_TASK_REQ_CANCEL = ABTI_TASK_REQ_CANCEL)"

definition cancel_kept :: "32 word \<Rightarrow> world \<Rightarrow> world \<Rightarrow> bool" where
  "cancel_kept cb w w' =
     (\<forall>p t t'. tasks w p = Some t \<and> tasks w' p = Some t' \<and> cancel_requested cb t
        \<longrightarrow> cancel_requested cb t')"

definition states_kept :: "world \<Rightarrow> world \<Rightarrow> bool" where
  "states_kept w w' =
     (dom (tasks w') = dom (tasks w) \<and>
      (\<forall>p t t'. tasks w p = Some t \<and> tasks w' p = Some t' \<longrightarrow> state t' = state t))"

text \<open>A task object, a stream, a scheduler, a world and collaborators to run the operations on.\<close>

definition task0 :: ABTI_task where
  "task0 = \<lparr>id_task = 0, p_name = NULL_str, state = ABT_TASK_STATE_RUNNING, refcount = 0,
            request = 0, f_task = 0, p_arg = 0, mutex = 0, p_stream = NULL, unit_task = 0\<rparr>"

definition sched0 :: ABTI_scheduler where
  "sched0 = \<lparr>u_create_from_task = (\<lambda>h. 200 + ABTI_task_get_ptr h), u_free = (\<lambda>u. 0), pool = []\<rparr>"

definition stream0 :: ABTI_stream where
  "stream0 = \<lparr>id_stream = 0, p_sched = 4, state_stream = ABT_STREAM_STATE_CREATED,
              mutex_stream = 0, deads = []\<rparr>"

definition world0 :: world where
  "world0 = \<lparr>tasks = Map.empty, streams = [3 \<mapsto> stream0], scheds = [4 \<mapsto> sched0],
             task_id = 0, global_tasks = [], p_streams = \<lparr>active = [], created = []\<rparr>\<rparr>"

definition collab0 :: collab where
  "collab0 = \<lparr>ABTU_malloc_ret = 8, ABTU_malloc_mem = task0, ABTU_malloc_name = True,
              ABT_mutex_create_ret = (ABT_SUCCESS, 1), ABT_mutex_free_ret = ABT_SUCCESS,
              ABTI_unit_create_from_task = (\<lambda>h. 100 + ABTI_task_get_ptr h),
              ABTI_unit_free = (\<lambda>u. 0), ABTI_global_add_task_ret = ABT_SUCCESS,
              ABTI_stream_start_any = (\<lambda>w. (ABT_SUCCESS, p_streams w, streams w)),
              ABTI_stream_start = (\<lambda>s. (ABT_SUCCESS, s\<lparr>state_stream := ABT_STREAM_STATE_RUNNING\<rparr>)),
              ABTI_local_get_thread = 1\<rparr>"

text \<open>The sample world with one task object, at address 1.\<close>

definition world_of :: "ABTI_task \<Rightarrow> world" where
  "world_of t = world0\<lparr>tasks := [1 \<mapsto> t]\<rparr>"

text \<open>
  What the rest of the runtime does while a caller of \<open>ABT_task_free\<close> yields
  twice: nothing during the first yield; during the second, the stream finishes
  task 1.
\<close>

definition yields0 :: "(world \<Rightarrow> world) list" where
  "yields0 = [\<lambda>w. w,
     \<lambda>w. w\<lparr>tasks := [1 \<mapsto> task0\<lparr>state := ABT_TASK_STATE_TERMINATED, p_stream := 3\<rparr>]\<rparr>]"

section \<open>Facts about the sequential operations\<close>

lemma release_loop_eq: "release_loop m = (if m > 0 then m - 1 else m)"
  by (subst release_loop.simps) (simp add: ABTD_atomic_cas_uint32_def Let_def)

lemma word32_wrap: "(4294967296 :: 32 word) = 0"
  by simp

lemma word32_max: "(0xFFFFFFFF :: 32 word) = - 1"
  by simp

lemma word32_below_max: "r \<noteq> (0xFFFFFFFF :: 32 word) \<Longrightarrow> r + 1 \<noteq> 0"
  unfolding word32_max by (metis add.commute add_eq_0_iff)

section \<open>Retain followed by release\<close>

text \<open>
  C2 (as stated, refuted): a retain followed by a release does not restore every
  starting count. On a task whose count is \<open>0xFFFFFFFF\<close> the increment of
  \<open>ABT_task_retain\<close> wraps to 0, \<open>ABT_task_release\<close> then reads 0 and leaves the
  loop at once, and the count ends at 0.
\<close>

theorem retain_release_wraps_at_max:
  "ABT_task_retain (world0\<lparr>tasks := [1 \<mapsto> task0\<lparr>refcount := 0xFFFFFFFF\<rparr>]\<rparr>) (ABT_task_of 1)
     = Returns (ABT_SUCCESS, world0\<lparr>tasks := [1 \<mapsto> task0\<lparr>refcount := 0\<rparr>]\<rparr>) \<and>
   ABT_task_release (world0\<lparr>tasks := [1 \<mapsto> task0\<lparr>refcount := 0\<rparr>]\<rparr>) (ABT_task_of 1)
     = Returns (ABT_SUCCESS, world0\<lparr>tasks := [1 \<mapsto> task0\<lparr>refcount := 0\<rparr>]\<rparr>) \<and>
   (0 :: 32 word) \<noteq> 0xFFFFFFFF"
  by (simp add: word32_wrap ABT_task_retain_def ABT_task_release_def
      ABTD_atomic_fetch_add_uint32_def release_loop_eq world0_def task0_def)

text \<open>
  C2 (amended): for every valid (non-null) task handle whose task has a starting
  refcount other than \<open>0xFFFFFFFF\<close>, \<open>ABT_task_retain\<close> followed by
  \<open>ABT_task_release\<close> both succeed and leave the refcount, and indeed the whole
  world, as it was before the pair.
\<close>

theorem retain_release_restores_refcount:
  assumes "p \<noteq> NULL" and "tasks w p = Some t" and "refcount t \<noteq> 0xFFFFFFFF"
  shows "\<exists>w1 w2. ABT_task_retain w (ABT_task_of p) = Returns (ABT_SUCCESS, w1) \<and>
           ABT_task_release w1 (ABT_task_of p) = Returns (ABT_SUCCESS, w2) \<and>
           map_option refcount (tasks w2 p) = Some (refcount t) \<and> w2 = w"
proof -
  have nz: "refcount t + 1 \<noteq> 0"
    using assms(3) by (rule word32_below_max)
  have gt: "refcount t + 1 > 0"
    using nz by (simp add: word_greater_zero_iff)
  have upd: "(tasks w)(p \<mapsto> t) = tasks w"
    using assms(2) by (simp add: map_upd_triv)
  show ?thesis
    using assms(1,2) gt nz
    by (simp add: ABT_task_retain_def ABT_task_release_def ABTD_atomic_fetch_add_uint32_def
        release_loop_eq upd)
qed

theorem retain_release_restores_refcount_witness:
  "ABT_task_retain (world0\<lparr>tasks := [1 \<mapsto> task0\<lparr>refcount := 2\<rparr>]\<rparr>) (ABT_task_of 1)
     = Returns (ABT_SUCCESS, world0\<lparr>tasks := [1 \<mapsto> task0\<lparr>refcount := 3\<rparr>]\<rparr>) \<and>
   ABT_task_release (world0\<lparr>tasks := [1 \<mapsto> task0\<lparr>refcount := 3\<rparr>]\<rparr>) (ABT_task_of 1)
     = Returns (ABT_SUCCESS, world0\<lparr>tasks := [1 \<mapsto> task0\<lparr>refcount := 2\<rparr>]\<rparr>)"
  using retain_release_restores_refcount
    [of 1 "world0\<lparr>tasks := [1 \<mapsto> task0\<lparr>refcount := 2\<rparr>]\<rparr>" "task0\<lparr>refcount := 2\<rparr>"]
  by (simp add: ABT_task_retain_def ABT_task_release_def ABTD_atomic_fetch_add_uint32_def
      release_loop_eq world0_def task0_def)

section \<open>Creation\<close>

lemmas create_defs = ABT_task_create_def Let_def ABTI_task_get_new_id_def ABTI_global_add_task_def
  ABTI_task_get_handle_def stream_at_def sched_at_def ABTI_scheduler_push_def
  ABTI_pool_get_size_def

lemmas sample_defs = world0_def collab0_def task0_def stream0_def sched0_def

lemma create_unbound:
  assumes "ABT_task_create c w ABT_STREAM_NULL task_func arg newtask =
             Returns (ABT_SUCCESS, w', newtask')"
  shows "\<exists>t. tasks w' (ABTU_malloc_ret c) = Some t \<and>
           state t = ABT_TASK_STATE_CREATED \<and> p_stream t = NULL \<and>
           unit_task t = ABTI_unit_create_from_task c (ABT_task_of (ABTU_malloc_ret c)) \<and>
           global_tasks w' = global_tasks w @ [unit_task t]"
  using assms
  by (auto simp: create_defs split: if_splits option.splits prod.splits)

lemma create_bound:
  assumes ok: "ABT_task_create c w (ABT_stream_of ps) task_func arg newtask =
                 Returns (ABT_SUCCESS, w', newtask')"
  shows "\<exists>t s sched sched'. stream_at w ps = Some s \<and>
           sched_at w (p_sched s) = Some sched \<and>
           tasks w' (ABTU_malloc_ret c) = Some t \<and>
           state t = ABT_TASK_STATE_DELAYED \<and> p_stream t = ps \<and>
           unit_task t = u_create_from_task sched (ABT_task_of (ABTU_malloc_ret c)) \<and>
           scheds w' (p_sched s) = Some sched' \<and>
           pool sched' = pool sched @ [unit_task t]"
proof -
  obtain s where s: "stream_at w ps = Some s"
    using ok by (auto simp: create_defs split: if_splits option.splits prod.splits)
  obtain sched where sched: "sched_at w (p_sched s) = Some sched"
    using ok s by (auto simp: create_defs split: if_splits option.splits prod.splits)
  have "\<exists>t sched'. tasks w' (ABTU_malloc_ret c) = Some t \<and>
          state t = ABT_TASK_STATE_DELAYED \<and> p_stream t = ps \<and>
          unit_task t = u_create_from_task sched (ABT_task_of (ABTU_malloc_ret c)) \<and>
          scheds w' (p_sched s) = Some sched' \<and>
          pool sched' = pool sched @ [unit_task t]"
    using ok s sched by (auto simp: create_defs split: if_splits option.splits prod.splits)
  with s sched show ?thesis by blast
qed

lemma create_unbound_sample:
  "ABT_task_create collab0 world0 ABT_STREAM_NULL 5 6 (Some ABT_TASK_NULL) =
     Returns (ABT_SUCCESS,
       world0\<lparr>tasks := [8 \<mapsto> task0\<lparr>id_task := 0, state := ABT_TASK_STATE_CREATED, refcount := 1,
                  f_task := 5, p_arg := 6, mutex := 1, unit_task := 108\<rparr>],
              task_id := 1, global_tasks := [108]\<rparr>,
       Some (ABT_task_of 8))"
  by (simp add: create_defs sample_defs)

lemma create_bound_sample:
  "ABT_task_create collab0 world0 (ABT_stream_of 3) 5 6 None =
     Returns (ABT_SUCCESS,
       world0\<lparr>tasks := [8 \<mapsto> task0\<lparr>id_task := 0, state := ABT_TASK_STATE_DELAYED, refcount := 0,
                  f_task := 5, p_arg := 6, mutex := 1, p_stream := 3, unit_task := 208\<rparr>],
              streams := [3 \<mapsto> stream0\<lparr>state_stream := ABT_STREAM_STATE_RUNNING\<rparr>],
              scheds := [4 \<mapsto> sched0\<lparr>pool := [208]\<rparr>],
              task_id := 1\<rparr>,
       None)"
  by (simp add: create_defs sample_defs)

text \<open>
  C3: when \<open>ABT_task_create\<close> succeeds, the new task is the object at the address
  the allocator returned. With no target stream (\<open>ABT_STREAM_NULL\<close>) its state is
  CREATED, its stream pointer is null, its unit is the one the generic factory
  \<open>ABTI_unit_create_from_task\<close> built for its handle, and that unit has been pushed
  into the global task pool. With a target stream its state is DELAYED, its stream
  pointer is that stream, its unit is the one built by \<open>u_create_from_task\<close> of that
  stream's scheduler, and that unit has been pushed into that scheduler's pool.
\<close>

theorem create_binds_task:
  assumes "ABT_task_create c w stream task_func arg newtask = Returns (ABT_SUCCESS, w', newtask')"
  shows "(stream = ABT_STREAM_NULL \<longrightarrow>
           (\<exists>t. tasks w' (ABTU_malloc_ret c) = Some t \<and>
              state t = ABT_TASK_STATE_CREATED \<and> p_stream t = NULL \<and>
              unit_task t = ABTI_unit_create_from_task c (ABT_task_of (ABTU_malloc_ret c)) \<and>
              global_tasks w' = global_tasks w @ [unit_task t])) \<and>
         (stream \<noteq> ABT_STREAM_NULL \<longrightarrow>
           (\<exists>t s sched sched'. stream_at w (ABTI_stream_get_ptr stream) = Some s \<and>
              sched_at w (p_sched s) = Some sched \<and>
              tasks w' (ABTU_malloc_ret c) = Some t \<and>
              state t = ABT_TASK_STATE_DELAYED \<and> p_stream t = ABTI_stream_get_ptr stream \<and>
              unit_task t = u_create_from_task sched (ABT_task_of (ABTU_malloc_ret c)) \<and>
              scheds w' (p_sched s) = Some sched' \<and>
              pool sched' = pool sched @ [unit_task t]))"
proof (cases stream)
  case ABT_STREAM_NULL
  with assms show ?thesis using create_unbound by simp
next
  case (ABT_stream_of ps)
  with assms show ?thesis using create_bound by simp
qed

theorem create_binds_task_witness:
  "(\<exists>w' h t. ABT_task_create collab0 world0 ABT_STREAM_NULL 5 6 (Some ABT_TASK_NULL) =
        Returns (ABT_SUCCESS, w', h) \<and>
      tasks w' 8 = Some t \<and> state t = ABT_TASK_STATE_CREATED \<and> p_stream t = NULL \<and>
      unit_task t = 108 \<and> global_tasks w' = [108]) \<and>
   (\<exists>w' h t sched'. ABT_task_create collab0 world0 (ABT_stream_of 3) 5 6 None =
        Returns (ABT_SUCCESS, w', h) \<and>
      tasks w' 8 = Some t \<and> state t = ABT_TASK_STATE_DELAYED \<and> p_stream t = 3 \<and>
      unit_task t = 208 \<and> scheds w' 4 = Some sched' \<and> pool sched' = [208])"
proof -
  have "\<exists>w' h t. ABT_task_create collab0 world0 ABT_STREAM_NULL 5 6 (Some ABT_TASK_NULL) =
        Returns (ABT_SUCCESS, w', h) \<and>
      tasks w' 8 = Some t \<and> state t = ABT_TASK_STATE_CREATED \<and> p_stream t = NULL \<and>
      unit_task t = 108 \<and> global_tasks w' = [108]"
    using create_binds_task [OF create_unbound_sample] create_unbound_sample
    by (simp add: sample_defs)
  moreover
  have "\<exists>w' h t sched'. ABT_task_create collab0 world0 (ABT_stream_of 3) 5 6 None =
        Returns (ABT_SUCCESS, w', h) \<and>
      tasks w' 8 = Some t \<and> state t = ABT_TASK_STATE_DELAYED \<and> p_stream t = 3 \<and>
      unit_task t = 208 \<and> scheds w' 4 = Some sched' \<and> pool sched' = [208]"
    using create_binds_task [OF create_bound_sample] create_bound_sample
    by (simp add: sample_defs stream_at_def sched_at_def)
  ultimately show ?thesis by blast
qed

text \<open>
  C4: when \<open>ABT_task_create\<close> succeeds, the refcount of the new task is 1 if the
  caller passed a non-null \<open>newtask\<close> and 0 if it passed the null pointer.
\<close>

theorem create_initial_refcount:
  assumes "ABT_task_create c w stream task_func arg newtask = Returns (ABT_SUCCESS, w', newtask')"
  shows "\<exists>t. tasks w' (ABTU_malloc_ret c) = Some t \<and>
           refcount t = (if newtask \<noteq> None then 1 else 0)"
  using assms
  by (auto simp: create_defs split: if_splits option.splits prod.splits)

theorem create_initial_refcount_witness:
  "(\<exists>w' h t. ABT_task_create collab0 world0 ABT_STREAM_NULL 5 6 (Some ABT_TASK_NULL) =
        Returns (ABT_SUCCESS, w', h) \<and> tasks w' 8 = Some t \<and> refcount t = 1) \<and>
   (\<exists>w' h t. ABT_task_create collab0 world0 (ABT_stream_of 3) 5 6 None =
        Returns (ABT_SUCCESS, w', h) \<and> tasks w' 8 = Some t \<and> refcount t = 0)"
proof -
  have "\<exists>w' h t. ABT_task_create collab0 world0 ABT_STREAM_NULL 5 6 (Some ABT_TASK_NULL) =
        Returns (ABT_SUCCESS, w', h) \<and> tasks w' 8 = Some t \<and> refcount t = 1"
    using create_initial_refcount [OF create_unbound_sample] create_unbound_sample
    by (simp add: sample_defs)
  moreover
  have "\<exists>w' h t. ABT_task_create collab0 world0 (ABT_stream_of 3) 5 6 None =
        Returns (ABT_SUCCESS, w', h) \<and> tasks w' 8 = Some t \<and> refcount t = 0"
    using create_initial_refcount [OF create_bound_sample] create_bound_sample
    by (simp add: sample_defs)
  ultimately show ?thesis by blast
qed

text \<open>
  C7 (the code departs from the claim): a failure of \<open>ABTU_malloc\<close> stores
  \<open>ABT_TASK_NULL\<close> through \<open>newtask\<close>, but a failure of \<open>ABT_mutex_create\<close> goes to
  \<open>fn_fail\<close> without touching \<open>newtask\<close>: the caller's variable, which held the
  handle of address 7 before the call, still holds it afterwards, and the
  allocated task object stays behind.
\<close>

theorem create_later_failure_keeps_old_handle:
  "ABT_task_create (collab0\<lparr>ABTU_malloc_ret := NULL\<rparr>) world0
      ABT_STREAM_NULL 5 6 (Some (ABT_task_of 7)) =
     Returns (ABT_ERR_MEM, world0, Some ABT_TASK_NULL) \<and>
   ABT_task_create (collab0\<lparr>ABT_mutex_create_ret := (ABT_ERR_OTHER 1, 0)\<rparr>) world0
      ABT_STREAM_NULL 5 6 (Some (ABT_task_of 7)) =
     Returns (ABT_ERR_OTHER 1,
       world0\<lparr>tasks := [8 \<mapsto> task0\<lparr>id_task := 0, state := ABT_TASK_STATE_CREATED, refcount := 1,
                  f_task := 5, p_arg := 6, mutex := 0\<rparr>],
              task_id := 1\<rparr>,
       Some (ABT_task_of 7))"
  by (simp add: create_defs sample_defs)


section \<open>Caller context and null handles\<close>

text \<open>
  C6: \<open>ABT_task_free\<close> called from the context of a task (\<open>ABTI_local_get_thread\<close>
  gives the null pointer) returns \<open>ABT_ERR_TASK\<close>, and neither the world (the state,
  refcount and name of every task, the pools) nor the caller's handle has changed.
\<close>

theorem free_from_task_context:
  assumes "ABTI_local_get_thread c = NULL"
  shows "ABT_task_free c yields w task = Returns (ABT_ERR_TASK, w, task)"
  using assms by (simp add: ABT_task_free_def)

theorem free_from_task_context_witness:
  "ABTI_local_get_thread (collab0\<lparr>ABTI_local_get_thread := NULL\<rparr>) = NULL \<and>
   ABT_task_free (collab0\<lparr>ABTI_local_get_thread := NULL\<rparr>) [] (world0\<lparr>tasks := [1 \<mapsto> task0]\<rparr>)
       (Some (ABT_task_of 1)) =
     Returns (ABT_ERR_TASK, world0\<lparr>tasks := [1 \<mapsto> task0]\<rparr>, Some (ABT_task_of 1))"
  using free_from_task_context
    [of "collab0\<lparr>ABTI_local_get_thread := NULL\<rparr>" "[]" "world0\<lparr>tasks := [1 \<mapsto> task0]\<rparr>"
        "Some (ABT_task_of 1)"]
  by (simp add: collab0_def)

text \<open>
  C9 (as stated, refuted): \<open>ABT_task_cancel\<close> checks the caller's context before it
  looks at the handle, so with the null handle and a caller that is a task it
  returns \<open>ABT_ERR_TASK\<close>, which is not the invalid-task error.
\<close>

theorem cancel_null_handle_from_task_context:
  "ABT_task_cancel 1 (collab0\<lparr>ABTI_local_get_thread := NULL\<rparr>) world0 ABT_TASK_NULL =
     Returns (ABT_ERR_TASK, world0) \<and>
   ABT_task_cancel 1 (collab0\<lparr>ABTI_local_get_thread := NULL\<rparr>) world0 ABT_TASK_NULL \<noteq>
     Returns (ABT_ERR_INV_TASK, world0)"
  by (simp add: ABT_task_cancel_def collab0_def)

text \<open>
  C9 (amended): with the null handle, \<open>ABT_task_get_state\<close>, \<open>ABT_task_get_name\<close>,
  \<open>ABT_task_set_name\<close>, \<open>ABT_task_retain\<close> and \<open>ABT_task_release\<close> return
  \<open>ABT_ERR_INV_TASK\<close>, and so does \<open>ABT_task_cancel\<close> when its caller is not a task;
  when its caller is a task, \<open>ABT_task_cancel\<close> returns \<open>ABT_ERR_TASK\<close>. In every
  case the call returns (no undefined behaviour), the world is unchanged and nothing
  is stored through the output arguments.
\<close>

theorem null_handle_is_invalid_task:
  "ABT_task_get_state w ABT_TASK_NULL = Returns (ABT_ERR_INV_TASK, None) \<and>
   ABT_task_get_name w ABT_TASK_NULL buf = Returns (ABT_ERR_INV_TASK, None, None) \<and>
   ABT_task_set_name c w ABT_TASK_NULL name = Returns (ABT_ERR_INV_TASK, w) \<and>
   ABT_task_retain w ABT_TASK_NULL = Returns (ABT_ERR_INV_TASK, w) \<and>
   ABT_task_release w ABT_TASK_NULL = Returns (ABT_ERR_INV_TASK, w) \<and>
   (ABTI_local_get_thread c \<noteq> NULL \<longrightarrow>
      ABT_task_cancel cb c w ABT_TASK_NULL = Returns (ABT_ERR_INV_TASK, w)) \<and>
   (ABTI_local_get_thread c = NULL \<longrightarrow>
      ABT_task_cancel cb c w ABT_TASK_NULL = Returns (ABT_ERR_TASK, w))"
  by (simp add: ABT_task_get_state_def ABT_task_get_name_def ABT_task_set_name_def
      ABT_task_retain_def ABT_task_release_def ABT_task_cancel_def)

theorem null_handle_is_invalid_task_witness:
  "ABTI_local_get_thread collab0 \<noteq> NULL \<and>
   ABT_task_cancel 1 collab0 (world0\<lparr>tasks := [1 \<mapsto> task0]\<rparr>) ABT_TASK_NULL =
     Returns (ABT_ERR_INV_TASK, world0\<lparr>tasks := [1 \<mapsto> task0]\<rparr>) \<and>
   ABT_task_release (world0\<lparr>tasks := [1 \<mapsto> task0]\<rparr>) ABT_TASK_NULL =
     Returns (ABT_ERR_INV_TASK, world0\<lparr>tasks := [1 \<mapsto> task0]\<rparr>) \<and>
   ABTI_local_get_thread (collab0\<lparr>ABTI_local_get_thread := NULL\<rparr>) = NULL \<and>
   ABT_task_cancel 1 (collab0\<lparr>ABTI_local_get_thread := NULL\<rparr>) (world0\<lparr>tasks := [1 \<mapsto> task0]\<rparr>)
       ABT_TASK_NULL =
     Returns (ABT_ERR_TASK, world0\<lparr>tasks := [1 \<mapsto> task0]\<rparr>)"
  using null_handle_is_invalid_task
      [of "world0\<lparr>tasks := [1 \<mapsto> task0]\<rparr>" None collab0 NULL_str 1]
    null_handle_is_invalid_task
      [of "world0\<lparr>tasks := [1 \<mapsto> task0]\<rparr>" None "collab0\<lparr>ABTI_local_get_thread := NULL\<rparr>"
          NULL_str 1]
  by (simp add: collab0_def)

section \<open>The name of a task that was never named\<close>

lemma get_name_sample:
  "ABT_task_set_name collab0 (world0\<lparr>tasks := [1 \<mapsto> task0]\<rparr>) (ABT_task_of 1) (Buf ''worker-1'') =
     Returns (ABT_SUCCESS, world0\<lparr>tasks := [1 \<mapsto> task0\<lparr>p_name := Buf ''worker-1''\<rparr>]\<rparr>) \<and>
   ABT_task_get_name (world0\<lparr>tasks := [1 \<mapsto> task0\<lparr>p_name := Buf ''worker-1''\<rparr>]\<rparr>) (ABT_task_of 1)
       (Some 9) =
     Returns (ABT_SUCCESS, Some ''worker-1'', Some 8)"
  by (simp add: ABT_task_set_name_def ABT_task_get_name_def strlen_def ABTU_strcpy_def
      sample_defs)

text \<open>
  C10: \<open>ABT_task_create\<close> leaves the name pointer of the new task null; on a valid
  handle whose task has a null name pointer \<open>ABT_task_get_name\<close> hands that null
  pointer to \<open>strlen\<close>, which is undefined, whatever buffer the caller passes; and
  whenever \<open>ABT_task_get_name\<close> returns on a valid handle, the name pointer of the
  task is a live string, which in this file only \<open>ABT_task_set_name\<close> stores.
\<close>

theorem get_name_needs_a_name:
  "(ABT_task_create c w stream task_func arg newtask = Returns (ABT_SUCCESS, w', newtask') \<longrightarrow>
      (\<exists>t. tasks w' (ABTU_malloc_ret c) = Some t \<and> p_name t = NULL_str)) \<and>
   (p \<noteq> NULL \<and> tasks w p = Some t \<and> p_name t = NULL_str \<longrightarrow>
      strlen (p_name t) = None \<and> ABT_task_get_name w (ABT_task_of p) buf = Undefined) \<and>
   (p \<noteq> NULL \<and> ABT_task_get_name w (ABT_task_of p) buf = Returns r \<longrightarrow>
      (\<exists>t str. tasks w p = Some t \<and> p_name t = Buf str))"
proof -
  have "\<exists>t. tasks w' (ABTU_malloc_ret c) = Some t \<and> p_name t = NULL_str"
    if "ABT_task_create c w stream task_func arg newtask = Returns (ABT_SUCCESS, w', newtask')"
    using that by (auto simp: create_defs split: if_splits option.splits prod.splits)
  moreover
  have "strlen (p_name t) = None \<and> ABT_task_get_name w (ABT_task_of p) buf = Undefined"
    if "p \<noteq> NULL \<and> tasks w p = Some t \<and> p_name t = NULL_str"
    using that by (simp add: ABT_task_get_name_def strlen_def)
  moreover
  have "\<exists>t str. tasks w p = Some t \<and> p_name t = Buf str"
    if "p \<noteq> NULL \<and> ABT_task_get_name w (ABT_task_of p) buf = Returns r"
    using that
    by (auto simp: ABT_task_get_name_def strlen_def split: option.splits char_ptr.splits)
  ultimately show ?thesis by blast
qed

theorem get_name_needs_a_name_witness:
  "(\<exists>w' t. ABT_task_create collab0 world0 ABT_STREAM_NULL 5 6 (Some ABT_TASK_NULL) =
        Returns (ABT_SUCCESS, w', Some (ABT_task_of 8)) \<and>
      tasks w' 8 = Some t \<and> p_name t = NULL_str \<and>
      ABT_task_get_name w' (ABT_task_of 8) None = Undefined) \<and>
   ABT_task_get_name (world0\<lparr>tasks := [1 \<mapsto> task0\<lparr>p_name := Buf ''worker-1''\<rparr>]\<rparr>)
       (ABT_task_of 1) (Some 9) = Returns (ABT_SUCCESS, Some ''worker-1'', Some 8) \<and>
   (\<exists>t str. tasks (world0\<lparr>tasks := [1 \<mapsto> task0\<lparr>p_name := Buf ''worker-1''\<rparr>]\<rparr>) 1 = Some t \<and>
      p_name t = Buf str)"
proof -
  obtain w' where cr: "ABT_task_create collab0 world0 ABT_STREAM_NULL 5 6 (Some ABT_TASK_NULL) =
      Returns (ABT_SUCCESS, w', Some (ABT_task_of 8))"
    using create_unbound_sample by blast
  have m: "ABTU_malloc_ret collab0 = 8"
    by (simp add: collab0_def)
  obtain t where t: "tasks w' 8 = Some t" "p_name t = NULL_str"
    using get_name_needs_a_name [THEN conjunct1, rule_format, OF cr] m by auto
  have "ABT_task_get_name w' (ABT_task_of 8) None = Undefined"
    using get_name_needs_a_name [THEN conjunct2, THEN conjunct1, rule_format, of 8 w' t None] t
    by simp
  with cr t have first: "\<exists>w' t. ABT_task_create collab0 world0 ABT_STREAM_NULL 5 6 (Some ABT_TASK_NULL) =
        Returns (ABT_SUCCESS, w', Some (ABT_task_of 8)) \<and>
      tasks w' 8 = Some t \<and> p_name t = NULL_str \<and>
      ABT_task_get_name w' (ABT_task_of 8) None = Undefined"
    by blast
  have gn: "ABT_task_get_name (world0\<lparr>tasks := [1 \<mapsto> task0\<lparr>p_name := Buf ''worker-1''\<rparr>]\<rparr>)
       (ABT_task_of 1) (Some 9) = Returns (ABT_SUCCESS, Some ''worker-1'', Some 8)"
    using get_name_sample by simp
  have "\<exists>t str. tasks (world0\<lparr>tasks := [1 \<mapsto> task0\<lparr>p_name := Buf ''worker-1''\<rparr>]\<rparr>) 1 = Some t \<and>
      p_name t = Buf str"
    using get_name_needs_a_name [THEN conjunct2, THEN conjunct2, rule_format, OF conjI, OF _ gn]
    by simp
  with first gn show ?thesis by blast
qed


section \<open>Release under contention\<close>

lemma count_list_update:
  "i < length xs \<Longrightarrow>
     count_list (xs[i := y]) a + (if xs ! i = a then 1 else 0) =
     count_list xs a + (if y = a then 1 else 0)"
proof (induction xs arbitrary: i)
  case Nil
  then show ?case by simp
next
  case (Cons x xs)
  show ?case
  proof (cases i)
    case 0
    then show ?thesis by simp
  next
    case (Suc j)
    with Cons.prems have "j < length xs" by simp
    from Cons.IH [OF this] Suc show ?thesis by (auto split: if_splits)
  qed
qed

lemma word32_pred: "(r :: 32 word) \<noteq> 0 \<Longrightarrow> unat (r - 1) + 1 = unat r"
  by (metis Suc_eq_plus1 Suc_pred' unat_gt_0 unat_minus_one)

lemma release_step_cases:
  assumes "release_step m pc = Some (m', pc')"
  shows "(pc = Loop_head \<and> m' = m \<and> pc' = (if m \<noteq> 0 then Try_cas m else Exited)) \<or>
         (\<exists>r. pc = Try_cas r \<and> m = r \<and> m' = r - 1 \<and> pc' = Broke) \<or>
         (\<exists>r. pc = Try_cas r \<and> m \<noteq> r \<and> m' = m \<and> pc' = Loop_head)"
  using assms
  by (cases pc) (auto simp: ABTD_atomic_cas_uint32_def Let_def word_greater_zero_iff split: if_splits)

lemma release_inv_step:
  assumes inv: "release_inv M N (m, pcs)" and i: "i < length pcs"
    and st: "release_step m (pcs ! i) = Some (m', pc')"
  shows "release_inv M N (m', pcs[i := pc'])"
proof -
  have sub: "set (pcs[i := pc']) \<subseteq> insert pc' (set pcs)"
    by (rule set_update_subset_insert)
  have mem: "pcs ! i \<in> set pcs"
    using i by simp
  note cnt = count_list_update [OF i, of pc' Broke]
  from release_step_cases [OF st] show ?thesis
  proof (elim disjE exE conjE)
    assume "pcs ! i = Loop_head" "m' = m" "pc' = (if m \<noteq> 0 then Try_cas m else Exited)"
    then show ?thesis
      using inv sub cnt by (auto simp: release_inv_def split: if_splits)
  next
    fix r assume a: "pcs ! i = Try_cas r" "m = r" "m' = r - 1" "pc' = Broke"
    with mem inv have "r \<noteq> 0" by (auto simp: release_inv_def)
    then have "unat (r - 1) + 1 = unat r" by (rule word32_pred)
    moreover from mem inv a \<open>r \<noteq> 0\<close> have "Exited \<notin> set pcs" by (auto simp: release_inv_def)
    ultimately show ?thesis
      using inv sub cnt a by (auto simp: release_inv_def split: if_splits)
  next
    fix r assume "pcs ! i = Try_cas r" "m \<noteq> r" "m' = m" "pc' = Loop_head"
    then show ?thesis
      using inv sub cnt by (auto simp: release_inv_def split: if_splits)
  qed
qed

lemma release_run_inv:
  assumes "release_run s0 s" and "release_inv M N s0"
  shows "release_inv M N s"
  using assms
proof (induction rule: release_run.induct)
  case (run_start s)
  then show ?case .
next
  case (run_step s m pcs i m' pc')
  then show ?case by (blast intro: release_inv_step)
qed

lemma release_inv_start: "release_inv M N (M, replicate N Loop_head)"
  by (induction N) (auto simp: release_inv_def)

lemma count_list_all: "\<forall>x \<in> set xs. x = a \<Longrightarrow> count_list xs a = length xs"
  by (induction xs) auto

lemma release_run_final:
  assumes run: "release_run (M, replicate N Loop_head) (m, pcs)"
  shows "length pcs = N" and "unat m + count_list pcs Broke = unat M"
    and "(\<forall>pc \<in> set pcs. finished pc) \<Longrightarrow> unat M < N \<Longrightarrow> m = 0"
proof -
  have inv: "release_inv M N (m, pcs)"
    using run release_inv_start by (rule release_run_inv)
  then show len: "length pcs = N" and cnt: "unat m + count_list pcs Broke = unat M"
    by (simp_all add: release_inv_def)
  assume fin: "\<forall>pc \<in> set pcs. finished pc" and less: "unat M < N"
  have "count_list pcs Broke < length pcs"
    using cnt less len by simp
  then have "\<exists>pc \<in> set pcs. pc \<noteq> Broke"
    using count_list_all [of pcs Broke] by auto
  with fin have "Exited \<in> set pcs"
    by (auto simp: finished_def)
  with inv show "m = 0"
    by (simp add: release_inv_def)
qed

lemma release_alone: "\<exists>pc. release_run (m, [Loop_head]) (release_loop m, [pc]) \<and> finished pc"
proof (cases "m = 0")
  case True
  have "release_run (m, [Loop_head]) (m, [Loop_head][0 := Exited])"
    using True by (intro run_step [OF run_start]) simp_all
  then show ?thesis
    using True by (auto simp: release_loop_eq finished_def)
next
  case False
  then have pos: "m > 0" by (simp add: word_greater_zero_iff)
  have "release_run (m, [Loop_head]) (m, [Loop_head][0 := Try_cas m])"
    using pos by (intro run_step [OF run_start]) simp_all
  then have "release_run (m, [Loop_head]) (m, [Try_cas m])" by simp
  then have "release_run (m, [Loop_head]) (m - 1, [Try_cas m][0 := Broke])"
    by (rule run_step) (simp_all add: ABTD_atomic_cas_uint32_def)
  then show ?thesis
    using pos by (auto simp: release_loop_eq finished_def)
qed

lemma release_effect:
  assumes "ABT_task_release w task = Returns (e, w')"
  shows "dom (tasks w') = dom (tasks w) \<and>
         (w' = w \<or> (\<exists>t. tasks w (ABTI_task_get_ptr task) = Some t \<and> refcount t \<noteq> 0 \<and>
            w' = w\<lparr>tasks := (tasks w)(ABTI_task_get_ptr task \<mapsto> t\<lparr>refcount := refcount t - 1\<rparr>)\<rparr>))"
proof (cases "ABTI_task_get_ptr task = NULL")
  case True
  with assms show ?thesis by (simp add: ABT_task_release_def Let_def)
next
  case False
  with assms obtain t where t: "tasks w (ABTI_task_get_ptr task) = Some t"
    by (auto simp: ABT_task_release_def Let_def split: option.splits)
  show ?thesis
  proof (cases "refcount t = 0")
    case True
    with t have "(tasks w)(ABTI_task_get_ptr task \<mapsto> t\<lparr>refcount := 0\<rparr>) = tasks w"
      by (metis map_upd_triv ABTI_task.surjective ABTI_task.update_convs(4))
    with assms False t True show ?thesis
      by (simp add: ABT_task_release_def Let_def release_loop_eq)
  next
    case nz: False
    then have "refcount t > 0" by (simp add: word_greater_zero_iff)
    with assms False t nz show ?thesis
      by (auto simp: ABT_task_release_def Let_def release_loop_eq split: if_splits)
  qed
qed

text \<open>
  C1: \<open>N\<close> callers of \<open>ABT_task_release\<close> run concurrently on a task whose refcount
  is \<open>M\<close>, their reads and compare-and-swaps interleaved in any order. In every
  state they reach, the refcount is \<open>M\<close> minus the number of callers whose
  compare-and-swap succeeded, counted in the natural numbers: it never wraps below
  0 and never exceeds \<open>M\<close>. When all callers have finished and \<open>M < N\<close>, the
  refcount is 0. A caller that reads 0 leaves the loop and the counter stays 0; run
  alone on a task whose refcount is 0, \<open>ABT_task_release\<close> succeeds and changes
  nothing. Whenever \<open>ABT_task_release\<close> returns, the same task objects are
  allocated as before, and either nothing has changed or the refcount of the target
  task, and nothing else, has gone down by one.
\<close>

theorem release_never_below_zero:
  "(release_run (M, replicate N Loop_head) (m, pcs) \<longrightarrow>
      unat m + count_list pcs Broke = unat M \<and> unat m \<le> unat M \<and>
      ((\<forall>pc \<in> set pcs. finished pc) \<and> unat M < N \<longrightarrow> m = 0)) \<and>
   release_step 0 Loop_head = Some (0, Exited) \<and>
   (p \<noteq> NULL \<and> tasks w p = Some t \<and> refcount t = 0 \<longrightarrow>
      ABT_task_release w (ABT_task_of p) = Returns (ABT_SUCCESS, w)) \<and>
   (ABT_task_release w task = Returns (e, w') \<longrightarrow>
      dom (tasks w') = dom (tasks w) \<and>
      (w' = w \<or> (\<exists>t. tasks w (ABTI_task_get_ptr task) = Some t \<and> refcount t \<noteq> 0 \<and>
         w' = w\<lparr>tasks := (tasks w)(ABTI_task_get_ptr task \<mapsto> t\<lparr>refcount := refcount t - 1\<rparr>)\<rparr>)))"
proof (intro conjI impI)
  assume run: "release_run (M, replicate N Loop_head) (m, pcs)"
  from release_run_final(2) [OF run]
  show cnt: "unat m + count_list pcs Broke = unat M" .
  then show "unat m \<le> unat M" by simp
  assume "(\<forall>pc \<in> set pcs. finished pc) \<and> unat M < N"
  then show "m = 0" using release_run_final(3) [OF run] by blast
next
  show "release_step 0 Loop_head = Some (0, Exited)" by simp
next
  assume a: "p \<noteq> NULL \<and> tasks w p = Some t \<and> refcount t = 0"
  then have "(tasks w)(p \<mapsto> t\<lparr>refcount := 0\<rparr>) = tasks w"
    by (metis map_upd_triv ABTI_task.surjective ABTI_task.update_convs(4))
  with a show "ABT_task_release w (ABT_task_of p) = Returns (ABT_SUCCESS, w)"
    by (simp add: ABT_task_release_def release_loop_eq)
next
  assume r: "ABT_task_release w task = Returns (e, w')"
  from release_effect [OF r] show "dom (tasks w') = dom (tasks w)" by simp
  from release_effect [OF r]
  show "w' = w \<or> (\<exists>t. tasks w (ABTI_task_get_ptr task) = Some t \<and> refcount t \<noteq> 0 \<and>
         w' = w\<lparr>tasks := (tasks w)(ABTI_task_get_ptr task \<mapsto> t\<lparr>refcount := refcount t - 1\<rparr>)\<rparr>)"
    by simp
qed

lemma release_run_sample: "release_run (1, replicate 2 Loop_head) (0, [Broke, Exited])"
proof -
  have r0: "release_run (1, [Loop_head, Loop_head]) (1, [Loop_head, Loop_head])"
    by (rule run_start)
  have r1: "release_run (1, [Loop_head, Loop_head]) (1, [Try_cas 1, Loop_head])"
    using run_step [OF r0, of 0 1 "Try_cas 1"] by simp
  have r2: "release_run (1, [Loop_head, Loop_head]) (1, [Try_cas 1, Try_cas 1])"
    using run_step [OF r1, of 1 1 "Try_cas 1"] by simp
  have r3: "release_run (1, [Loop_head, Loop_head]) (0, [Broke, Try_cas 1])"
    using run_step [OF r2, of 0 0 Broke] by (simp add: ABTD_atomic_cas_uint32_def)
  have r4: "release_run (1, [Loop_head, Loop_head]) (0, [Broke, Loop_head])"
    using run_step [OF r3, of 1 0 Loop_head] by (simp add: ABTD_atomic_cas_uint32_def)
  have r5: "release_run (1, [Loop_head, Loop_head]) (0, [Broke, Exited])"
    using run_step [OF r4, of 1 0 Exited] by simp
  then show ?thesis by (simp add: numeral_2_eq_2)
qed

theorem release_never_below_zero_witness:
  "release_run (1, replicate 2 Loop_head) (0, [Broke, Exited]) \<and>
   finished Broke \<and> finished Exited \<and> unat (1 :: 32 word) < 2 \<and>
   unat (0 :: 32 word) + count_list [Broke, Exited] Broke = unat (1 :: 32 word) \<and>
   ABT_task_release (world0\<lparr>tasks := [1 \<mapsto> task0]\<rparr>) (ABT_task_of 1) =
     Returns (ABT_SUCCESS, world0\<lparr>tasks := [1 \<mapsto> task0]\<rparr>) \<and>
   ABT_task_release (world0\<lparr>tasks := [1 \<mapsto> task0\<lparr>refcount := 2\<rparr>]\<rparr>) (ABT_task_of 1) =
     Returns (ABT_SUCCESS, world0\<lparr>tasks := [1 \<mapsto> task0\<lparr>refcount := 1\<rparr>]\<rparr>) \<and>
   dom (tasks (world0\<lparr>tasks := [1 \<mapsto> task0\<lparr>refcount := 1\<rparr>]\<rparr>)) =
     dom (tasks (world0\<lparr>tasks := [1 \<mapsto> task0\<lparr>refcount := 2\<rparr>]\<rparr>))"
proof -
  have rel: "ABT_task_release (world0\<lparr>tasks := [1 \<mapsto> task0\<lparr>refcount := 2\<rparr>]\<rparr>) (ABT_task_of 1) =
     Returns (ABT_SUCCESS, world0\<lparr>tasks := [1 \<mapsto> task0\<lparr>refcount := 1\<rparr>]\<rparr>)"
    by (simp add: ABT_task_release_def release_loop_eq world0_def task0_def)
  have zero: "ABT_task_release (world0\<lparr>tasks := [1 \<mapsto> task0]\<rparr>) (ABT_task_of 1) =
     Returns (ABT_SUCCESS, world0\<lparr>tasks := [1 \<mapsto> task0]\<rparr>)"
    using release_never_below_zero
      [THEN conjunct2, THEN conjunct2, THEN conjunct1, rule_format,
        of 1 "world0\<lparr>tasks := [1 \<mapsto> task0]\<rparr>" task0]
    by (simp add: task0_def)
  have doms: "dom (tasks (world0\<lparr>tasks := [1 \<mapsto> task0\<lparr>refcount := 1\<rparr>]\<rparr>)) =
     dom (tasks (world0\<lparr>tasks := [1 \<mapsto> task0\<lparr>refcount := 2\<rparr>]\<rparr>))"
    using release_never_below_zero
      [THEN conjunct2, THEN conjunct2, THEN conjunct2, rule_format, OF rel]
    by blast
  have fin: "finished Broke" "finished Exited"
    by (simp_all add: finished_def)
  have less: "unat (1 :: 32 word) < 2"
    by simp
  have "unat (0 :: 32 word) + count_list [Broke, Exited] Broke = unat (1 :: 32 word)"
    using release_never_below_zero [THEN conjunct1, rule_format, OF release_run_sample]
    by blast
  with release_run_sample fin less rel zero doms show ?thesis by blast
qed


section \<open>Free waits for termination\<close>

lemma wait_terminated_Returns:
  assumes "wait_terminated ys w p = Returns w1"
  shows "\<exists>n t. n \<le> length ys \<and> w1 = fold (\<lambda>y. y) (take n ys) w \<and>
           task_at w1 p = Some t \<and> state t = ABT_TASK_STATE_TERMINATED"
  using assms
proof (induction ys arbitrary: w)
  case Nil
  then show ?case by (auto split: option.splits if_splits)
next
  case (Cons y ys)
  show ?case
  proof (cases "\<exists>t. task_at w p = Some t \<and> state t = ABT_TASK_STATE_TERMINATED")
    case True
    with Cons.prems have "w1 = w" by auto
    with True show ?thesis by (intro exI [of _ 0]) auto
  next
    case False
    with Cons.prems have "wait_terminated ys (y w) p = Returns w1"
      by (auto split: option.splits if_splits)
    from Cons.IH [OF this] obtain n t where
      "n \<le> length ys" "w1 = fold (\<lambda>y. y) (take n ys) (y w)"
      "task_at w1 p = Some t" "state t = ABT_TASK_STATE_TERMINATED"
      by blast
    then show ?thesis by (intro exI [of _ "Suc n"]) auto
  qed
qed

lemma wait_terminated_enough:
  assumes "n \<le> length ys"
    and "\<forall>k \<le> n. task_at (fold (\<lambda>y. y) (take k ys) w) p \<noteq> None"
    and "task_at (fold (\<lambda>y. y) (take n ys) w) p = Some t"
    and "state t = ABT_TASK_STATE_TERMINATED"
  shows "\<exists>w1. wait_terminated ys w p = Returns w1"
  using assms
proof (induction ys arbitrary: w n)
  case Nil
  then show ?case by auto
next
  case (Cons y ys)
  from Cons.prems(2) have "task_at w p \<noteq> None" by (auto dest: spec [of _ 0])
  then obtain t0 where t0: "task_at w p = Some t0" by blast
  show ?case
  proof (cases "state t0 = ABT_TASK_STATE_TERMINATED")
    case True
    with t0 show ?thesis by simp
  next
    case False
    with t0 Cons.prems(3,4) obtain m where n: "n = Suc m" by (cases n) auto
    have "\<forall>k \<le> m. task_at (fold (\<lambda>y. y) (take k ys) (y w)) p \<noteq> None"
    proof (intro allI impI)
      fix k assume "k \<le> m"
      then have "Suc k \<le> n" using n by simp
      with Cons.prems(2) have "task_at (fold (\<lambda>y. y) (take (Suc k) (y # ys)) w) p \<noteq> None"
        by blast
      then show "task_at (fold (\<lambda>y. y) (take k ys) (y w)) p \<noteq> None" by simp
    qed
    moreover have "m \<le> length ys" using Cons.prems(1) n by simp
    moreover have "task_at (fold (\<lambda>y. y) (take m ys) (y w)) p = Some t"
      using Cons.prems(3) n by simp
    ultimately have "\<exists>w1. wait_terminated ys (y w) p = Returns w1"
      using Cons.prems(4) by (intro Cons.IH) auto
    with t0 False show ?thesis by simp
  qed
qed

lemma ABTI_task_free_effect:
  assumes "ABTI_task_free c w p = Returns (e, w')"
  shows "(e = ABT_SUCCESS \<longrightarrow> tasks w' p = None) \<and>
         (\<forall>q t'. tasks w' q = Some t' \<longrightarrow>
            (\<exists>t1. tasks w q = Some t1 \<and> refcount t' = refcount t1 \<and>
               request t' = request t1 \<and> state t' = state t1))"
  using assms
  by (auto simp: ABTI_task_free_def task_at_def Let_def
      split: option.splits if_splits char_ptr.splits)

lemma ABT_task_free_effect:
  assumes ctx: "ABTI_local_get_thread c \<noteq> NULL"
    and ret: "ABT_task_free c yields w task = Returns (e, w', task')"
  shows "\<exists>h n w1 t. task = Some h \<and> n \<le> length yields \<and>
           w1 = fold (\<lambda>y. y) (take n yields) w \<and>
           task_at w1 (ABTI_task_get_ptr h) = Some t \<and> state t = ABT_TASK_STATE_TERMINATED \<and>
           (e = ABT_SUCCESS \<longrightarrow> tasks w' (ABTI_task_get_ptr h) = None \<and> task' = Some ABT_TASK_NULL) \<and>
           (e \<noteq> ABT_SUCCESS \<longrightarrow> task' = task) \<and>
           (\<forall>q t'. tasks w' q = Some t' \<longrightarrow>
              (\<exists>t1. tasks w1 q = Some t1 \<and> refcount t' = refcount t1 \<and>
                 request t' = request t1 \<and> state t' = state t1))"
proof -
  from ctx ret obtain h where h: "task = Some h"
    by (auto simp: ABT_task_free_def split: option.splits)
  let ?p = "ABTI_task_get_ptr h"
  from ctx ret h obtain w1 where w1: "wait_terminated yields w ?p = Returns w1"
    by (auto simp: ABT_task_free_def Let_def split: exec.splits)
  from wait_terminated_Returns [OF w1] obtain n t where
    n: "n \<le> length yields" "w1 = fold (\<lambda>y. y) (take n yields) w"
    and t: "task_at w1 ?p = Some t" "state t = ABT_TASK_STATE_TERMINATED"
    by blast
  define w2 where "w2 =
    (if refcount t > 0 then
       (case stream_at w1 (p_stream t) of
          None \<Rightarrow> w1
        | Some s \<Rightarrow> w1\<lparr>streams := (streams w1)
            (p_stream t \<mapsto> s\<lparr>deads := ABTI_pool_remove (deads s) (unit_task t)\<rparr>)\<rparr>)
     else w1)"
  have w2: "tasks w2 = tasks w1"
    by (simp add: w2_def split: option.splits)
  have fr: "ABTI_task_free c w2 ?p = Returns (e, w')"
    using ctx ret h w1 t
    by (auto simp: ABT_task_free_def Let_def w2_def split: exec.splits option.splits if_splits)
  have hd: "task' = (if e \<noteq> ABT_SUCCESS then task else Some ABT_TASK_NULL)"
    using ctx ret h w1 t
    by (auto simp: ABT_task_free_def Let_def split: exec.splits option.splits if_splits)
  from ABTI_task_free_effect [OF fr] w2 hd h n t show ?thesis
    by (intro exI [of _ h] exI [of _ n] exI [of _ w1] exI [of _ t]) auto
qed

lemma ABT_task_free_not_waiting:
  assumes "n \<le> length ys"
    and "\<forall>k \<le> n. task_at (fold (\<lambda>y. y) (take k ys) w) (ABTI_task_get_ptr h) \<noteq> None"
    and "task_at (fold (\<lambda>y. y) (take n ys) w) (ABTI_task_get_ptr h) = Some t"
    and "state t = ABT_TASK_STATE_TERMINATED"
  shows "ABT_task_free c ys w (Some h) \<noteq> Still_waiting"
proof -
  from wait_terminated_enough [OF assms] obtain w1 where
    "wait_terminated ys w (ABTI_task_get_ptr h) = Returns w1" by blast
  then show ?thesis
    by (auto simp: ABT_task_free_def ABTI_task_free_def Let_def
        split: exec.splits option.splits if_splits char_ptr.splits)
qed

lemma free_sample:
  "ABT_task_free collab0 yields0
      (world0\<lparr>tasks := [1 \<mapsto> task0\<lparr>p_stream := 3\<rparr>]\<rparr>) (Some (ABT_task_of 1)) =
     Returns (ABT_SUCCESS, world0\<lparr>tasks := Map.empty\<rparr>, Some ABT_TASK_NULL)"
  by (simp add: ABT_task_free_def ABTI_task_free_def task_at_def stream_at_def sched_at_def
      world0_def collab0_def task0_def stream0_def sched0_def yields0_def)

text \<open>
  C5: when \<open>ABT_task_free\<close> is called from a context that is not a task and
  returns, it has read the state of the task as TERMINATED: after some number of
  yields, at most as many as the schedule holds, the task was allocated and
  TERMINATED in the world of that moment. If it returns \<open>ABT_SUCCESS\<close>, the task
  object is no longer allocated and the caller's handle variable holds
  \<open>ABT_TASK_NULL\<close>. Every task object that is still allocated when the call
  returns has the refcount it had at that moment: the call stores no refcount.
\<close>

theorem free_returns_after_terminated:
  assumes "ABTI_local_get_thread c \<noteq> NULL"
    and "ABT_task_free c yields w task = Returns (e, w', task')"
  shows "\<exists>h n w1 t. task = Some h \<and> n \<le> length yields \<and>
           w1 = fold (\<lambda>y. y) (take n yields) w \<and>
           task_at w1 (ABTI_task_get_ptr h) = Some t \<and> state t = ABT_TASK_STATE_TERMINATED \<and>
           (e = ABT_SUCCESS \<longrightarrow> tasks w' (ABTI_task_get_ptr h) = None \<and> task' = Some ABT_TASK_NULL) \<and>
           (\<forall>q t'. tasks w' q = Some t' \<longrightarrow>
              (\<exists>t1. tasks w1 q = Some t1 \<and> refcount t' = refcount t1))"
proof -
  from ABT_task_free_effect [OF assms] obtain h n w1 t where
    "task = Some h" "n \<le> length yields" "w1 = fold (\<lambda>y. y) (take n yields) w"
    "task_at w1 (ABTI_task_get_ptr h) = Some t" "state t = ABT_TASK_STATE_TERMINATED"
    "e = ABT_SUCCESS \<longrightarrow> tasks w' (ABTI_task_get_ptr h) = None \<and> task' = Some ABT_TASK_NULL"
    "\<forall>q t'. tasks w' q = Some t' \<longrightarrow>
       (\<exists>t1. tasks w1 q = Some t1 \<and> refcount t' = refcount t1 \<and>
          request t' = request t1 \<and> state t' = state t1)"
    by blast
  then show ?thesis
    by (intro exI [of _ h] exI [of _ n] exI [of _ w1] exI [of _ t]) blast
qed

lemma free_failure_sample:
  "ABT_task_free (collab0\<lparr>ABT_mutex_free_ret := ABT_ERR_OTHER 2\<rparr>) []
      (world0\<lparr>tasks := [1 \<mapsto> task0\<lparr>state := ABT_TASK_STATE_TERMINATED, refcount := 2,
         p_stream := 3, unit_task := 9\<rparr>]\<rparr>) (Some (ABT_task_of 1)) =
     Returns (ABT_ERR_OTHER 2,
       world0\<lparr>tasks := [1 \<mapsto> task0\<lparr>state := ABT_TASK_STATE_TERMINATED, refcount := 2,
         p_stream := 3, unit_task := 0\<rparr>]\<rparr>, Some (ABT_task_of 1))"
  by (simp add: ABT_task_free_def ABTI_task_free_def task_at_def stream_at_def sched_at_def
      ABTI_pool_remove_def world0_def collab0_def task0_def stream0_def sched0_def)

theorem free_returns_after_terminated_witness:
  "ABTI_local_get_thread collab0 \<noteq> NULL \<and>
   ABT_task_free collab0 yields0
      (world0\<lparr>tasks := [1 \<mapsto> task0\<lparr>p_stream := 3\<rparr>]\<rparr>) (Some (ABT_task_of 1)) =
     Returns (ABT_SUCCESS, world0\<lparr>tasks := Map.empty\<rparr>, Some ABT_TASK_NULL) \<and>
   (\<exists>n w1 t. n \<le> length yields0 \<and>
      w1 = fold (\<lambda>y. y) (take n yields0) (world0\<lparr>tasks := [1 \<mapsto> task0\<lparr>p_stream := 3\<rparr>]\<rparr>) \<and>
      task_at w1 1 = Some t \<and> state t = ABT_TASK_STATE_TERMINATED) \<and>
   tasks (world0\<lparr>tasks := Map.empty\<rparr>) 1 = None \<and>
   (\<exists>w' t'. ABT_task_free (collab0\<lparr>ABT_mutex_free_ret := ABT_ERR_OTHER 2\<rparr>) []
        (world0\<lparr>tasks := [1 \<mapsto> task0\<lparr>state := ABT_TASK_STATE_TERMINATED, refcount := 2,
           p_stream := 3, unit_task := 9\<rparr>]\<rparr>) (Some (ABT_task_of 1)) =
        Returns (ABT_ERR_OTHER 2, w', Some (ABT_task_of 1)) \<and>
      tasks w' 1 = Some t' \<and> refcount t' = 2)"
proof -
  have ctx: "ABTI_local_get_thread collab0 \<noteq> NULL"
    by (simp add: collab0_def)
  from free_returns_after_terminated [OF ctx free_sample]
  have seen: "\<exists>n w1 t. n \<le> length yields0 \<and>
      w1 = fold (\<lambda>y. y) (take n yields0) (world0\<lparr>tasks := [1 \<mapsto> task0\<lparr>p_stream := 3\<rparr>]\<rparr>) \<and>
      task_at w1 1 = Some t \<and> state t = ABT_TASK_STATE_TERMINATED"
    by auto
  have ctx': "ABTI_local_get_thread (collab0\<lparr>ABT_mutex_free_ret := ABT_ERR_OTHER 2\<rparr>) \<noteq> NULL"
    by (simp add: collab0_def)
  from free_returns_after_terminated [OF ctx' free_failure_sample]
  have "\<exists>t'. tasks (world0\<lparr>tasks := [1 \<mapsto> task0\<lparr>state := ABT_TASK_STATE_TERMINATED,
      refcount := 2, p_stream := 3, unit_task := 0\<rparr>]\<rparr>) 1 = Some t' \<and> refcount t' = 2"
    by simp
  with free_failure_sample
  have kept: "\<exists>w' t'. ABT_task_free (collab0\<lparr>ABT_mutex_free_ret := ABT_ERR_OTHER 2\<rparr>) []
        (world0\<lparr>tasks := [1 \<mapsto> task0\<lparr>state := ABT_TASK_STATE_TERMINATED, refcount := 2,
           p_stream := 3, unit_task := 9\<rparr>]\<rparr>) (Some (ABT_task_of 1)) =
        Returns (ABT_ERR_OTHER 2, w', Some (ABT_task_of 1)) \<and>
      tasks w' 1 = Some t' \<and> refcount t' = 2"
    by blast
  from ctx free_sample seen kept show ?thesis by simp
qed

section \<open>The cancel request is never cleared\<close>

lemma cancel_requested_or: "cancel_requested cb (t\<lparr>request := request t OR cb\<rparr>)"
  by (simp add: cancel_requested_def)

lemma cancel_kept_refl: "cancel_kept cb w w"
  by (auto simp: cancel_kept_def)

lemma cancel_kept_cancel:
  assumes "ABT_task_cancel cb c w task = Returns (e, w')"
  shows "cancel_kept cb w w' \<and> states_kept w w' \<and>
      (e = ABT_SUCCESS \<longrightarrow>
         (\<exists>t'. tasks w' (ABTI_task_get_ptr task) = Some t' \<and> cancel_requested cb t'))"
proof (cases "ABTI_local_get_thread c = NULL \<or> ABTI_task_get_ptr task = NULL")
  case True
  with assms have "w' = w \<and> e \<noteq> ABT_SUCCESS"
    by (auto simp: ABT_task_cancel_def Let_def split: if_splits)
  then show ?thesis
    by (auto simp: cancel_kept_def states_kept_def)
next
  case False
  with assms obtain t where t: "tasks w (ABTI_task_get_ptr task) = Some t"
    by (auto simp: ABT_task_cancel_def Let_def split: option.splits)
  with assms False have w': "w' = w\<lparr>tasks := (tasks w)(ABTI_task_get_ptr task \<mapsto>
      t\<lparr>request := request t OR cb\<rparr>)\<rparr>"
    by (auto simp: ABT_task_cancel_def Let_def ABTD_atomic_fetch_or_uint32_def)
  have "cancel_kept cb w w'"
    using t cancel_requested_or [of cb t] by (auto simp: cancel_kept_def w' split: if_splits)
  moreover have "states_kept w w'"
    using t by (auto simp: states_kept_def w' split: if_splits)
  moreover have "\<exists>t'. tasks w' (ABTI_task_get_ptr task) = Some t' \<and> cancel_requested cb t'"
    using cancel_requested_or [of cb t] by (simp add: w')
  ultimately show ?thesis by blast
qed

lemma cancel_kept_retain:
  assumes "ABT_task_retain w task = Returns (e, w')"
  shows "cancel_kept cb w w'"
  using assms
  by (auto simp: ABT_task_retain_def Let_def ABTD_atomic_fetch_add_uint32_def
      cancel_kept_def cancel_requested_def
      split: option.splits if_splits)

lemma cancel_kept_release:
  assumes "ABT_task_release w task = Returns (e, w')"
  shows "cancel_kept cb w w'"
  using assms
  by (auto simp: ABT_task_release_def Let_def cancel_kept_def cancel_requested_def
      split: option.splits if_splits)

lemma cancel_kept_set_name:
  assumes "ABT_task_set_name c w task name = Returns (e, w')"
  shows "cancel_kept cb w w'"
  using assms
  by (auto simp: ABT_task_set_name_def Let_def cancel_kept_def cancel_requested_def
      split: option.splits if_splits)

lemma create_tasks:
  assumes "ABT_task_create c w stream task_func arg newtask = Returns (e, w', newtask')"
  shows "\<forall>q. q \<noteq> ABTU_malloc_ret c \<longrightarrow> tasks w' q = tasks w q"
  using assms
  by (auto simp: ABT_task_create_def Let_def ABTI_task_get_new_id_def ABTI_global_add_task_def
      split: if_splits option.splits prod.splits)

lemma cancel_kept_create:
  assumes "tasks w (ABTU_malloc_ret c) = None"
    and "ABT_task_create c w stream task_func arg newtask = Returns (e, w', newtask')"
  shows "cancel_kept cb w w'"
  unfolding cancel_kept_def
proof (intro allI impI)
  fix p t t'
  assume a: "tasks w p = Some t \<and> tasks w' p = Some t' \<and> cancel_requested cb t"
  with assms(1) have "p \<noteq> ABTU_malloc_ret c" by auto
  with create_tasks [OF assms(2)] have "tasks w' p = tasks w p" by blast
  with a show "cancel_requested cb t'" by auto
qed

lemma cancel_kept_free:
  assumes "ABT_task_free c yields w task = Returns (e, w', task')"
  shows "\<exists>n \<le> length yields. cancel_kept cb (fold (\<lambda>y. y) (take n yields) w) w'"
proof (cases "ABTI_local_get_thread c = NULL")
  case True
  with assms have "w' = w" by (simp add: ABT_task_free_def)
  then show ?thesis by (intro exI [of _ 0]) (simp add: cancel_kept_refl)
next
  case False
  from ABT_task_free_effect [OF False assms] obtain n w1 where
    n: "n \<le> length yields" "w1 = fold (\<lambda>y. y) (take n yields) w"
    and k: "\<forall>q t'. tasks w' q = Some t' \<longrightarrow>
       (\<exists>t1. tasks w1 q = Some t1 \<and> refcount t' = refcount t1 \<and>
          request t' = request t1 \<and> state t' = state t1)"
    by blast
  have "cancel_kept cb w1 w'"
    unfolding cancel_kept_def cancel_requested_def using k by fastforce
  with n show ?thesis by blast
qed

text \<open>
  C8: no operation of this file that changes the world clears a cancel request.
  After \<open>ABT_task_cancel\<close>, \<open>ABT_task_retain\<close>, \<open>ABT_task_release\<close>,
  \<open>ABT_task_set_name\<close> and \<open>ABT_task_create\<close> (given that the allocator returns an
  address at which no task lives) every task that had the request and is still
  allocated still has it; \<open>ABT_task_free\<close> keeps the requests of the world it found
  after the yields it waited for. \<open>ABT_task_cancel\<close> changes the state of no task
  and allocates or frees none, and when it succeeds the target has the request.
\<close>

theorem cancel_request_monotonic:
  "(ABT_task_cancel cb c w task = Returns (e, w') \<longrightarrow>
      cancel_kept cb w w' \<and> states_kept w w' \<and>
      (e = ABT_SUCCESS \<longrightarrow>
         (\<exists>t'. tasks w' (ABTI_task_get_ptr task) = Some t' \<and> cancel_requested cb t'))) \<and>
   (ABT_task_retain w task = Returns (e, w') \<longrightarrow> cancel_kept cb w w') \<and>
   (ABT_task_release w task = Returns (e, w') \<longrightarrow> cancel_kept cb w w') \<and>
   (ABT_task_set_name c w task name = Returns (e, w') \<longrightarrow> cancel_kept cb w w') \<and>
   (tasks w (ABTU_malloc_ret c) = None \<and>
    ABT_task_create c w stream task_func arg newtask = Returns (e, w', newtask') \<longrightarrow>
      cancel_kept cb w w') \<and>
   (ABT_task_free c yields w handle = Returns (e, w', handle') \<longrightarrow>
      (\<exists>n \<le> length yields. cancel_kept cb (fold (\<lambda>y. y) (take n yields) w) w'))"
proof -
  have on_cancel: "ABT_task_cancel cb c w task = Returns (e, w') \<longrightarrow>
      cancel_kept cb w w' \<and> states_kept w w' \<and>
      (e = ABT_SUCCESS \<longrightarrow>
         (\<exists>t'. tasks w' (ABTI_task_get_ptr task) = Some t' \<and> cancel_requested cb t'))"
    by (rule impI) (rule cancel_kept_cancel)
  have on_retain: "ABT_task_retain w task = Returns (e, w') \<longrightarrow> cancel_kept cb w w'"
    by (rule impI) (rule cancel_kept_retain)
  have on_release: "ABT_task_release w task = Returns (e, w') \<longrightarrow> cancel_kept cb w w'"
    by (rule impI) (rule cancel_kept_release)
  have on_set_name: "ABT_task_set_name c w task name = Returns (e, w') \<longrightarrow> cancel_kept cb w w'"
    by (rule impI) (rule cancel_kept_set_name)
  have on_create: "tasks w (ABTU_malloc_ret c) = None \<and>
      ABT_task_create c w stream task_func arg newtask = Returns (e, w', newtask') \<longrightarrow>
      cancel_kept cb w w'"
    by (rule impI, erule conjE) (rule cancel_kept_create)
  have on_free: "ABT_task_free c yields w handle = Returns (e, w', handle') \<longrightarrow>
      (\<exists>n \<le> length yields. cancel_kept cb (fold (\<lambda>y. y) (take n yields) w) w')"
    by (rule impI) (rule cancel_kept_free)
  show ?thesis
    by (rule conjI [OF on_cancel conjI [OF on_retain conjI [OF on_release
          conjI [OF on_set_name conjI [OF on_create on_free]]]]])
qed

lemma flag_samples:
  "ABT_task_cancel 1 collab0 (world_of task0) (ABT_task_of 1) =
     Returns (ABT_SUCCESS, world_of (task0\<lparr>request := 1\<rparr>))"
  "ABT_task_retain (world_of (task0\<lparr>request := 1\<rparr>)) (ABT_task_of 1) =
     Returns (ABT_SUCCESS, world_of (task0\<lparr>request := 1, refcount := 1\<rparr>))"
  "ABT_task_release (world_of (task0\<lparr>request := 1\<rparr>)) (ABT_task_of 1) =
     Returns (ABT_SUCCESS, world_of (task0\<lparr>request := 1\<rparr>))"
  "ABT_task_set_name collab0 (world_of (task0\<lparr>request := 1\<rparr>)) (ABT_task_of 1) (Buf ''a'') =
     Returns (ABT_SUCCESS, world_of (task0\<lparr>request := 1, p_name := Buf ''a''\<rparr>))"
  "ABT_task_create collab0 (world_of (task0\<lparr>request := 1\<rparr>)) ABT_STREAM_NULL 5 6 None =
     Returns (ABT_SUCCESS,
       world0\<lparr>tasks := [1 \<mapsto> task0\<lparr>request := 1\<rparr>,
                 8 \<mapsto> task0\<lparr>state := ABT_TASK_STATE_CREATED, f_task := 5, p_arg := 6,
                        mutex := 1, unit_task := 108\<rparr>],
              task_id := 1, global_tasks := [108]\<rparr>, None)"
  "ABT_task_free (collab0\<lparr>ABT_mutex_free_ret := ABT_ERR_OTHER 2\<rparr>) []
       (world_of (task0\<lparr>request := 1, state := ABT_TASK_STATE_TERMINATED, refcount := 2,
          p_stream := 3\<rparr>)) (Some (ABT_task_of 1)) =
     Returns (ABT_ERR_OTHER 2,
       world_of (task0\<lparr>request := 1, state := ABT_TASK_STATE_TERMINATED, refcount := 2,
          p_stream := 3\<rparr>), Some (ABT_task_of 1))"
  by (simp_all add: ABT_task_cancel_def ABT_task_retain_def ABT_task_release_def
      ABT_task_set_name_def create_defs ABT_task_free_def ABTI_task_free_def
      ABTD_atomic_fetch_or_uint32_def ABTD_atomic_fetch_add_uint32_def release_loop_eq
      strlen_def ABTU_strcpy_def task_at_def stream_at_def sched_at_def ABTI_pool_remove_def
      world_of_def world0_def collab0_def task0_def stream0_def sched0_def)

theorem cancel_request_monotonic_witness:
  "ABT_task_cancel 1 collab0 (world_of task0) (ABT_task_of 1) =
     Returns (ABT_SUCCESS, world_of (task0\<lparr>request := 1\<rparr>)) \<and>
   cancel_kept 1 (world_of task0) (world_of (task0\<lparr>request := 1\<rparr>)) \<and>
   states_kept (world_of task0) (world_of (task0\<lparr>request := 1\<rparr>)) \<and>
   cancel_requested 1 (task0\<lparr>request := 1\<rparr>) \<and>
   cancel_kept 1 (world_of (task0\<lparr>request := 1\<rparr>))
     (world_of (task0\<lparr>request := 1, refcount := 1\<rparr>)) \<and>
   cancel_kept 1 (world_of (task0\<lparr>request := 1\<rparr>)) (world_of (task0\<lparr>request := 1\<rparr>)) \<and>
   cancel_kept 1 (world_of (task0\<lparr>request := 1\<rparr>))
     (world_of (task0\<lparr>request := 1, p_name := Buf ''a''\<rparr>)) \<and>
   tasks (world_of (task0\<lparr>request := 1\<rparr>)) (ABTU_malloc_ret collab0) = None \<and>
   cancel_kept 1 (world_of (task0\<lparr>request := 1\<rparr>))
     (world0\<lparr>tasks := [1 \<mapsto> task0\<lparr>request := 1\<rparr>,
               8 \<mapsto> task0\<lparr>state := ABT_TASK_STATE_CREATED, f_task := 5, p_arg := 6,
                      mutex := 1, unit_task := 108\<rparr>],
            task_id := 1, global_tasks := [108]\<rparr>) \<and>
   (\<exists>n. n \<le> length ([] :: (world \<Rightarrow> world) list) \<and>
      cancel_kept 1
        (fold (\<lambda>y. y) (take n [])
          (world_of (task0\<lparr>request := 1, state := ABT_TASK_STATE_TERMINATED, refcount := 2,
             p_stream := 3\<rparr>)))
        (world_of (task0\<lparr>request := 1, state := ABT_TASK_STATE_TERMINATED, refcount := 2,
           p_stream := 3\<rparr>)))"
proof -
  note mono = cancel_request_monotonic [where cb = 1]
  have fresh: "tasks (world_of (task0\<lparr>request := 1\<rparr>)) (ABTU_malloc_ret collab0) = None"
    by (simp add: world_of_def world0_def collab0_def)
  have flag: "cancel_requested 1 (task0\<lparr>request := 1\<rparr>)"
    by (simp add: cancel_requested_def)
  from mono [THEN conjunct1, rule_format, OF flag_samples(1)]
  have c1: "cancel_kept 1 (world_of task0) (world_of (task0\<lparr>request := 1\<rparr>))"
    and c1': "states_kept (world_of task0) (world_of (task0\<lparr>request := 1\<rparr>))"
    by simp_all
  from mono [THEN conjunct2, THEN conjunct1, rule_format, OF flag_samples(2)]
  have c2: "cancel_kept 1 (world_of (task0\<lparr>request := 1\<rparr>))
     (world_of (task0\<lparr>request := 1, refcount := 1\<rparr>))" .
  from mono [THEN conjunct2, THEN conjunct2, THEN conjunct1, rule_format, OF flag_samples(3)]
  have c3: "cancel_kept 1 (world_of (task0\<lparr>request := 1\<rparr>)) (world_of (task0\<lparr>request := 1\<rparr>))" .
  from mono [THEN conjunct2, THEN conjunct2, THEN conjunct2, THEN conjunct1, rule_format,
      OF flag_samples(4)]
  have c4: "cancel_kept 1 (world_of (task0\<lparr>request := 1\<rparr>))
     (world_of (task0\<lparr>request := 1, p_name := Buf ''a''\<rparr>))" .
  from mono [THEN conjunct2, THEN conjunct2, THEN conjunct2, THEN conjunct2, THEN conjunct1,
      rule_format, OF conjI, OF fresh flag_samples(5)]
  have c5: "cancel_kept 1 (world_of (task0\<lparr>request := 1\<rparr>))
     (world0\<lparr>tasks := [1 \<mapsto> task0\<lparr>request := 1\<rparr>,
               8 \<mapsto> task0\<lparr>state := ABT_TASK_STATE_CREATED, f_task := 5, p_arg := 6,
                      mutex := 1, unit_task := 108\<rparr>],
            task_id := 1, global_tasks := [108]\<rparr>)" .
  from mono [THEN conjunct2, THEN conjunct2, THEN conjunct2, THEN conjunct2, THEN conjunct2,
      rule_format, OF flag_samples(6)]
  have c6: "\<exists>n. n \<le> length ([] :: (world \<Rightarrow> world) list) \<and>
      cancel_kept 1
        (fold (\<lambda>y. y) (take n [])
          (world_of (task0\<lparr>request := 1, state := ABT_TASK_STATE_TERMINATED, refcount := 2,
             p_stream := 3\<rparr>)))
        (world_of (task0\<lparr>request := 1, state := ABT_TASK_STATE_TERMINATED, refcount := 2,
           p_stream := 3\<rparr>))" .
  from flag_samples(1) c1 c1' flag c2 c3 c4 fresh c5 c6 show ?thesis
    by (intro conjI)
qed


end
